theory Spec2Isabelle
  imports Complex_Main
begin

section \<open>Numbers, errors and arrays\<close>

text \<open>
  The embedding follows \<^verbatim>\<open>ion_functions/data/opt_functions.py\<close>. NumPy's float64
  values are modelled by \<^typ>\<open>real\<close>: every arithmetic operation of the source is the
  operation of the same name on the reals, so the theorems speak about the structure of
  the computation (which entries are read, which formula combines them, which branch
  raises), not about rounding. A comparison such as \<^verbatim>\<open>tbins - tintrn < 0\<close> agrees
  with the real comparison on all finite floats. Where NumPy would produce
  \<^verbatim>\<open>inf\<close> or \<^verbatim>\<open>nan\<close> (division by zero, logarithm of a non-positive number) it
  does not raise; the model has HOL's value of the same expression there. Where rounding
  itself decides a property (an exact equality that rests on an algebraic identity), the
  binary64 arithmetic is written out, see the section on binary64 evaluation.

  One-dimensional arrays are lists. A raised exception is the \<open>Inl\<close> branch of the
  result; \<open>ValueError\<close> carries the argument tuple of the exception.
\<close>

datatype error = ValueError "string list" | IndexError | KeyError

text \<open>
  A two-dimensional array with its \<^verbatim>\<open>shape\<close> (rows, columns) and its rows. The shape
  is stored because the source reads it (\<^verbatim>\<open>r, c = tarray.shape\<close>) and an array with
  no rows still has a column count.
\<close>

record array2d =
  nrows :: nat
  ncols :: nat
  rows_of :: "real list list"

definition wf_array2d :: "array2d \<Rightarrow> bool" where
  "wf_array2d A =
     (length (rows_of A) = nrows A \<and> list_all (\<lambda>row. length row = ncols A) (rows_of A))"

text \<open>\<^verbatim>\<open>A[:, j]\<close>: column \<open>j\<close> of a two-dimensional array.\<close>

definition column :: "array2d \<Rightarrow> nat \<Rightarrow> real list" where
  "column A j = map (\<lambda>row. row ! j) (rows_of A)"

text \<open>\<^verbatim>\<open>np.nonzero(mask)[0]\<close>: the indices at which a boolean array is true, ascending.\<close>

definition nonzero :: "bool list \<Rightarrow> nat list" where
  "nonzero flags = filter (\<lambda>i. flags ! i) [0..<length flags]"

text \<open>
  Indexing a one-dimensional array by a Python integer: a negative index counts from the
  end, and an index outside the array raises \<^verbatim>\<open>IndexError\<close>.
\<close>

definition getitem :: "'a list \<Rightarrow> int \<Rightarrow> error + 'a" where
  "getitem xs i =
     (let n = int (length xs); k = (if i < 0 then i + n else i)
      in if k < 0 \<or> n \<le> k then Inl IndexError else Inr (xs ! nat k))"

text \<open>\<^verbatim>\<open>str(n)\<close> of a non-negative Python integer: its decimal digits.\<close>

definition digit_chars :: string where
  "digit_chars = ''0123456789''"

function str_nat :: "nat \<Rightarrow> string" where
  "str_nat n =
     (if n < 10 then [digit_chars ! n]
      else str_nat (n div 10) @ [digit_chars ! (n mod 10)])"
  by pat_completeness auto
termination
  by (relation "measure id") auto

declare str_nat.simps [simp del]

section \<open>opt\_pd\_calc\<close>

text \<open>
  Lines 409--410: the indices of the bins bracketing the internal temperature,
  \<^verbatim>\<open>ind1 = np.nonzero(tbins-tintrn < 0)[0][-1]\<close> and
  \<^verbatim>\<open>ind2 = np.nonzero(tintrn-tbins < 0)[0][0]\<close>.
\<close>

definition bracket_indices :: "real list \<Rightarrow> real \<Rightarrow> error + (nat \<times> nat)" where
  "bracket_indices tbins tintrn =
     (case getitem (nonzero (map (\<lambda>b. b - tintrn < 0) tbins)) (- 1) of
        Inl e \<Rightarrow> Inl e
      | Inr ind1 \<Rightarrow>
          (case getitem (nonzero (map (\<lambda>b. tintrn - b < 0) tbins)) 0 of
             Inl e \<Rightarrow> Inl e
           | Inr ind2 \<Rightarrow> Inr (ind1, ind2)))"

definition offsetErrorString :: "nat \<Rightarrow> nat \<Rightarrow> string" where
  "offsetErrorString n_offset nValues =
     ''The number of calibration offset channels ('' @ str_nat n_offset @
     '') from the cal devfile must match the number of Signal and Reference channels ('' @
     str_nat nValues @ '') from the rawdata.''"

definition rErrorString :: "nat \<Rightarrow> nat \<Rightarrow> string" where
  "rErrorString r nValues =
     ''The number of rows in the internal temperature compensation calibration array ('' @
     str_nat r @
     '') must match the number of wavelength channels in the rawdata ('' @
     str_nat nValues @ '').''"

definition cErrorString :: "nat \<Rightarrow> nat \<Rightarrow> string" where
  "cErrorString c tValues =
     ''Number of columns in the internal temperature compensation calibration array ('' @
     str_nat c @
     '') must match the number of internal temp comp cal bin values = ('' @
     str_nat tValues @ '').''"

text \<open>
  \<^verbatim>\<open>opt_pd_calc(ref, sig, offset, tintrn, tbins, tarray)\<close>, lines 362--424. The four
  shape checks come first, in the source's order; then the bracket search, the linear
  temperature correction \<open>deltaT\<close> and the uncorrected coefficient \<open>pd\<close>. All the
  elementwise operations act on arrays of the common length \<open>nValues\<close>, which the checks
  have established.
\<close>

definition opt_pd_calc ::
  "real list \<Rightarrow> real list \<Rightarrow> real list \<Rightarrow> real \<Rightarrow> real list \<Rightarrow> array2d
     \<Rightarrow> error + (real list \<times> real list)" where
  "opt_pd_calc ref sig offset tintrn tbins tarray =
     (if length ref \<noteq> length sig
      then Inl (ValueError [''Reference and Signal arrays must be the same length''])
      else let nValues = length sig in
      if length offset \<noteq> nValues
      then Inl (ValueError [offsetErrorString (length offset) nValues])
      else let tValues = length tbins; r = nrows tarray; c = ncols tarray in
      if r \<noteq> nValues then Inl (ValueError [rErrorString r nValues])
      else if c \<noteq> tValues then Inl (ValueError [cErrorString c tValues])
      else
        (case bracket_indices tbins tintrn of
           Inl e \<Rightarrow> Inl e
         | Inr (ind1, ind2) \<Rightarrow>
             let T0 = tbins ! ind1;
                 T1 = tbins ! ind2;
                 dT0 = column tarray ind1;
                 dT1 = column tarray ind2;
                 deltaT = map2 (\<lambda>d0 d1. d0 + ((tintrn - T0) / (T1 - T0)) * (d1 - d0)) dT0 dT1;
                 pd = map2 (\<lambda>x d. x - d)
                        (map2 (\<lambda>off q. off - (1 / 0.25) * ln q)
                           offset (map2 (\<lambda>s r. s / r) sig ref))
                        deltaT
             in Inr (pd, deltaT)))"

section \<open>opt\_tempsal\_corr\<close>

text \<open>
  The static table \<^verbatim>\<open>tscor\<close> is imported from \<^verbatim>\<open>opt_functions_tscor\<close>, a module that
  is not part of the sources at hand; it is a parameter of the model. Following the
  specification it maps a wavelength to the triple (temperature coefficient, salinity
  coefficient for attenuation, salinity coefficient for absorption).
\<close>

type_synonym tscor_table = "real \<rightharpoonup> (real \<times> real \<times> real)"

text \<open>
  \<^verbatim>\<open>[tscor[ii] for ii in wlngth]\<close>: the lookups in order; the first missing key
  raises \<^verbatim>\<open>KeyError\<close>.
\<close>

fun tscor_rows :: "tscor_table \<Rightarrow> real list \<Rightarrow> error + (real \<times> real \<times> real) list" where
  "tscor_rows tscor [] = Inr []"
| "tscor_rows tscor (w # ws) =
     (case tscor w of
        None \<Rightarrow> Inl KeyError
      | Some row \<Rightarrow>
          (case tscor_rows tscor ws of
             Inl e \<Rightarrow> Inl e
           | Inr rows \<Rightarrow> Inr (row # rows)))"

text \<open>
  \<^verbatim>\<open>np_tscor[:, k]\<close> for \<^verbatim>\<open>np_tscor = np.array(rows)\<close>. A non-empty list of
  triples becomes an array of shape \<open>(n, 3)\<close>, whose column \<open>k\<close> is read. The empty list
  becomes a one-dimensional array of shape \<open>(0,)\<close>, and indexing it with two indices
  raises \<^verbatim>\<open>IndexError\<close> (too many indices).
\<close>

definition tscor_column :: "(real \<times> real \<times> real) list \<Rightarrow> nat \<Rightarrow> error + real list" where
  "tscor_column rows k =
     (if rows = [] then Inl IndexError
      else Inr (map (\<lambda>(t, sc, sa). if k = 0 then t else if k = 1 then sc else sa) rows))"

text \<open>
  \<^verbatim>\<open>opt_tempsal_corr(channel, pd, wlngth, tcal, T, PS)\<close>, lines 484--505. The table is
  read before the channel tag is examined, as in the source.
\<close>

definition opt_tempsal_corr ::
  "tscor_table \<Rightarrow> string \<Rightarrow> real list \<Rightarrow> real list \<Rightarrow> real \<Rightarrow> real \<Rightarrow> real
     \<Rightarrow> error + real list" where
  \<open>opt_tempsal_corr tscor channel pd wlngth tcal T PS =
     (if length pd \<noteq> length wlngth
      then Inl (ValueError [''pd and wavelength arrays must be the same length''])
      else
        (case tscor_rows tscor wlngth of
           Inl e \<Rightarrow> Inl e
         | Inr np_tscor \<Rightarrow>
             let dT = T - tcal in
             if channel = ''a'' then
               (case tscor_column np_tscor 0 of
                  Inl e \<Rightarrow> Inl e
                | Inr tc \<Rightarrow>
                    (case tscor_column np_tscor 2 of
                       Inl e \<Rightarrow> Inl e
                     | Inr sc \<Rightarrow>
                         Inr (map2 (\<lambda>x y. x - y)
                                (map2 (\<lambda>x y. x - y) pd (map (\<lambda>t. dT * t) tc))
                                (map (\<lambda>s. PS * s) sc))))
             else if channel = ''c'' then
               (case tscor_column np_tscor 0 of
                  Inl e \<Rightarrow> Inl e
                | Inr tc \<Rightarrow>
                    (case tscor_column np_tscor 1 of
                       Inl e \<Rightarrow> Inl e
                     | Inr sc \<Rightarrow>
                         Inr (map2 (\<lambda>x y. x - y)
                                (map2 (\<lambda>x y. x - y) pd (map (\<lambda>t. dT * t) tc))
                                (map (\<lambda>s. PS * s) sc))))
             else Inl (ValueError [''Channel must be either "a" or "c"''])))\<close>

text \<open>
  The callers round the wavelengths before the lookup, line 94:
  \<^verbatim>\<open>np.around(..., decimals=1)\<close>, that is \<^verbatim>\<open>rint(x * 10) / 10\<close> with \<^verbatim>\<open>rint\<close>
  rounding halves to the even integer. \<^verbatim>\<open>opt_tempsal_corr\<close> itself does not round.
\<close>

definition rint :: "real \<Rightarrow> int" where
  "rint y =
     (let f = \<lfloor>y\<rfloor>; d = y - of_int f
      in if d < 1 / 2 then f else if 1 / 2 < d then f + 1 else if even f then f else f + 1)"

definition around1 :: "real \<Rightarrow> real" where
  "around1 x = of_int (rint (x * 10)) / 10"

section \<open>opt\_scatter\_corr\<close>

text \<open>
  \<^verbatim>\<open>a.argmin()\<close>: the index of the first occurrence of the minimum; an empty array
  raises \<^verbatim>\<open>ValueError\<close>.
\<close>

fun argmin_scan :: "real list \<Rightarrow> nat \<Rightarrow> nat \<Rightarrow> real \<Rightarrow> nat" where
  "argmin_scan [] i best bv = best"
| "argmin_scan (x # xs) i best bv =
     (if x < bv then argmin_scan xs (Suc i) i x else argmin_scan xs (Suc i) best bv)"

definition argmin :: "real list \<Rightarrow> error + nat" where
  "argmin xs =
     (case xs of
        [] \<Rightarrow> Inl (ValueError [''attempt to get argmin of an empty sequence''])
      | x # rest \<Rightarrow> Inr (argmin_scan rest 1 0 x))"

text \<open>
  \<^verbatim>\<open>np.interp(x, xp, fp)\<close> is a NumPy library routine, modelled from its documentation:
  the piecewise linear interpolant through the points \<open>(xp, fp)\<close>, with \<open>xp\<close> increasing,
  evaluated at each \<open>x\<close>; below \<open>xp[0]\<close> the value is \<open>fp[0]\<close>, above \<open>xp[-1]\<close> it is
  \<open>fp[-1]\<close>. It raises \<^verbatim>\<open>ValueError\<close> when \<open>xp\<close> is empty or \<open>fp\<close> has another length.
  \<open>interp_segments\<close> walks the segments from the left and interpolates on the first one
  whose right end lies beyond \<open>x\<close>. NumPy does not check that \<open>xp\<close> is increasing and
  documents no result when it is not; the properties of the interpolated values below
  are stated for sorted \<open>xp\<close>.
\<close>

fun interp_segments :: "real \<Rightarrow> real list \<Rightarrow> real list \<Rightarrow> real" where
  "interp_segments x (x0 # x1 # xs) (y0 # y1 # ys) =
     (if x < x1 then (y1 - y0) / (x1 - x0) * (x - x0) + y0
      else interp_segments x (x1 # xs) (y1 # ys))"
| "interp_segments x xs ys = last ys"

definition interp1 :: "real \<Rightarrow> real list \<Rightarrow> real list \<Rightarrow> real" where
  "interp1 x xp fp =
     (if x < hd xp then hd fp
      else if last xp < x then last fp
      else interp_segments x xp fp)"

definition np_interp :: "real list \<Rightarrow> real list \<Rightarrow> real list \<Rightarrow> error + real list" where
  "np_interp x xp fp =
     (if xp = [] then Inl (ValueError [''array of sample points is empty''])
      else if length fp \<noteq> length xp
      then Inl (ValueError [''fp and xp are not of the same length.''])
      else Inr (map (\<lambda>v. interp1 v xp fp) x))"

text \<open>
  \<^verbatim>\<open>opt_scatter_corr(apd_ts, awlngth, cpd_ts, cwlngth, rwlngth=715.)\<close>, lines 599--642.
  The two length errors are raised with two arguments each, as written in the source.
\<close>

definition opt_scatter_corr ::
  "real list \<Rightarrow> real list \<Rightarrow> real list \<Rightarrow> real list \<Rightarrow> real \<Rightarrow> error + real list" where
  "opt_scatter_corr apd_ts awlngth cpd_ts cwlngth rwlngth =
     (let ref_scatter_leakage_min = 0.02 in
      if length apd_ts \<noteq> length awlngth
      then Inl (ValueError [''Absorption and absorption wavelength arrays must '',
                            ''be the same length''])
      else if length cpd_ts \<noteq> length cwlngth
      then Inl (ValueError [''Attenuation and attenuation wavelength arrays must '',
                            ''be the same length''])
      else
        (case argmin (map (\<lambda>w. \<bar>w - rwlngth\<bar>) awlngth) of
           Inl e \<Rightarrow> Inl e
         | Inr idx \<Rightarrow>
             let aref = apd_ts ! idx in
             (case np_interp awlngth cwlngth cpd_ts of
                Inl e \<Rightarrow> Inl e
              | Inr cintrp \<Rightarrow>
                  let cref = cintrp ! idx;
                      scat_ratio =
                        (if aref \<le> 0 then 0
                         else if cref - aref \<le> ref_scatter_leakage_min then 0
                         else aref / (cref - aref))
                  in Inr (map2 (\<lambda>a c. a - scat_ratio * (c - a)) apd_ts cintrp))))"

text \<open>The call with the default reference wavelength.\<close>

definition opt_scatter_corr_default ::
  "real list \<Rightarrow> real list \<Rightarrow> real list \<Rightarrow> real list \<Rightarrow> error + real list" where
  "opt_scatter_corr_default apd_ts awlngth cpd_ts cwlngth =
     opt_scatter_corr apd_ts awlngth cpd_ts cwlngth 715"

section \<open>opt\_ocr507\_irradiance\<close>

text \<open>
  An array of any number of dimensions: its \<^verbatim>\<open>shape\<close> and its elements in row-major
  order. \<^verbatim>\<open>np.atleast_2d\<close> views a scalar as \<open>1 \<times> 1\<close> and a vector of length \<open>n\<close> as
  \<open>1 \<times> n\<close>, and leaves any other array as it is.
\<close>

record ndarray =
  shape :: "nat list"
  elems :: "real list"

definition wf_ndarray :: "ndarray \<Rightarrow> bool" where
  "wf_ndarray a = (length (elems a) = prod_list (shape a))"

definition atleast_2d :: "ndarray \<Rightarrow> ndarray" where
  "atleast_2d a =
     (case shape a of
        [] \<Rightarrow> a\<lparr>shape := [1, 1]\<rparr>
      | [n] \<Rightarrow> a\<lparr>shape := [1, n]\<rparr>
      | _ \<Rightarrow> a)"

text \<open>\<^verbatim>\<open>opt_ocr507_irradiance(counts, offset, scale, immersion_factor)\<close>, lines 969--984.\<close>

definition opt_ocr507_irradiance ::
  "ndarray \<Rightarrow> ndarray \<Rightarrow> ndarray \<Rightarrow> ndarray \<Rightarrow> error + ndarray" where
  "opt_ocr507_irradiance counts offset scale immersion_factor =
     (let counts = atleast_2d (counts\<lparr>elems := map (\<lambda>x. x * 1.0) (elems counts)\<rparr>);
          offset = atleast_2d offset;
          scale = atleast_2d scale;
          immersion_factor = atleast_2d immersion_factor;
          lFlag1 = (last (shape counts) \<noteq> 7);
          lFlag2 = (\<not> (shape counts = shape offset \<and> shape offset = shape scale
                        \<and> shape scale = shape immersion_factor))
      in if lFlag1 \<or> lFlag2
         then Inl (ValueError
           [''counts, offset, scale, and immersion arrays must have the same shape and have 7 columns''])
         else Inr \<lparr>shape = shape counts,
                   elems = map2 (\<lambda>x y. x * y)
                             (map2 (\<lambda>x y. x * y)
                                (map2 (\<lambda>x y. x - y) (elems counts) (elems offset))
                                (elems scale))
                             (elems immersion_factor)\<rparr>)"

section \<open>Binary64 evaluation at the reference index\<close>

text \<open>
  The source computes with IEEE 754 binary64 numbers. For the one question where rounding
  decides the answer (whether the corrected absorption at the reference index is exactly
  zero) the arithmetic of lines 633--641 at the reference index is also modelled with
  rounding: every operation returns the real result rounded to the nearest number with a
  53-bit significand, ties to the even significand (\<open>rint\<close>). \<open>binade x\<close> is the exponent
  \<open>e\<close> with \<open>2^e \<le> |x| < 2^(e+1)\<close>, and the spacing of the representable numbers there is
  \<open>2^(e-52)\<close>. Overflow and subnormal numbers are left out: the model is that of the
  normal range.
\<close>

definition pow2 :: "int \<Rightarrow> real" where
  "pow2 k = (if 0 \<le> k then 2 ^ nat k else 1 / 2 ^ nat (- k))"

definition binade :: "real \<Rightarrow> int" where
  "binade x = \<lfloor>log 2 \<bar>x\<bar>\<rfloor>"

definition round_f64 :: "real \<Rightarrow> real" where
  "round_f64 x =
     (if x = 0 then 0
      else let u = pow2 (binade x - 52) in of_int (rint (x / u)) * u)"

definition f64_sub :: "real \<Rightarrow> real \<Rightarrow> real" where
  "f64_sub a b = round_f64 (a - b)"

definition f64_mul :: "real \<Rightarrow> real \<Rightarrow> real" where
  "f64_mul a b = round_f64 (a * b)"

definition f64_div :: "real \<Rightarrow> real \<Rightarrow> real" where
  "f64_div a b = round_f64 (a / b)"

text \<open>
  Lines 633--641 at the index \<open>idx\<close>, with \<open>aref = apd_ts[idx]\<close> and
  \<open>cref = cintrp[idx]\<close>: the value \<^verbatim>\<open>apd_ts[idx] - scat_ratio * (cintrp[idx] - apd_ts[idx])\<close>
  as binary64 arithmetic computes it.
\<close>

definition scat_ref_f64 :: "real \<Rightarrow> real \<Rightarrow> real" where
  "scat_ref_f64 aref cref =
     (let ref_scatter_leakage_min = round_f64 0.02;
          scat_ratio =
            (if aref \<le> 0 then 0
             else if f64_sub cref aref \<le> ref_scatter_leakage_min then 0
             else f64_div aref (f64_sub cref aref))
      in f64_sub aref (f64_mul scat_ratio (f64_sub cref aref)))"


section \<open>Index searches\<close>

lemma getitem_last: "getitem xs (- 1) = (if xs = [] then Inl IndexError else Inr (last xs))"
  by (cases xs rule: rev_cases) (simp_all add: getitem_def Let_def)

lemma getitem_first: "getitem xs 0 = (if xs = [] then Inl IndexError else Inr (hd xs))"
  by (cases xs) (simp_all add: getitem_def Let_def)

lemma nonzero_map: "nonzero (map P xs) = filter (\<lambda>i. P (xs ! i)) [0..<length xs]"
  by (auto simp: nonzero_def intro: filter_cong)

lemma filter_upt_empty: "filter P [0..<n] = [] \<longleftrightarrow> (\<forall>i<n. \<not> P i)"
  by (auto simp: filter_empty_conv)

lemma last_filter_upt:
  assumes "filter P [0..<n] \<noteq> []"
  shows "last (filter P [0..<n]) < n \<and> P (last (filter P [0..<n]))
         \<and> (\<forall>j. last (filter P [0..<n]) < j \<and> j < n \<longrightarrow> \<not> P j)"
  using assms
proof (induction n)
  case 0
  then show ?case by simp
next
  case (Suc n)
  show ?case
  proof (cases "P n")
    case True
    then show ?thesis by auto
  next
    case False
    with Suc.prems have ne: "filter P [0..<n] \<noteq> []" by simp
    have eq: "filter P [0..<Suc n] = filter P [0..<n]" using False by simp
    from Suc.IH [OF ne] False show ?thesis
      unfolding eq by (metis less_Suc_eq)
  qed
qed

lemma hd_filter_upt:
  assumes "filter P [0..<n] \<noteq> []"
  shows "hd (filter P [0..<n]) < n \<and> P (hd (filter P [0..<n]))
         \<and> (\<forall>j < hd (filter P [0..<n]). \<not> P j)"
  using assms
proof (induction n)
  case 0
  then show ?case by simp
next
  case (Suc n)
  show ?case
  proof (cases "filter P [0..<n] = []")
    case True
    with Suc.prems have "P n" by (simp split: if_splits)
    moreover from True have "\<forall>i<n. \<not> P i" by (simp add: filter_upt_empty)
    ultimately show ?thesis using True by simp
  next
    case False
    have eq: "hd (filter P [0..<Suc n]) = hd (filter P [0..<n])" using False by simp
    from Suc.IH [OF False] show ?thesis
      unfolding eq by (metis less_Suc_eq)
  qed
qed

lemma bracket_indices_eq:
  "bracket_indices tbins t =
     (if filter (\<lambda>i. tbins ! i < t) [0..<length tbins] = [] then Inl IndexError
      else if filter (\<lambda>i. t < tbins ! i) [0..<length tbins] = [] then Inl IndexError
      else Inr (last (filter (\<lambda>i. tbins ! i < t) [0..<length tbins]),
                hd (filter (\<lambda>i. t < tbins ! i) [0..<length tbins])))"
  by (simp add: bracket_indices_def getitem_last getitem_first nonzero_map)

lemma filter_idx_empty:
  "filter (\<lambda>i. P (xs ! i)) [0..<length xs] = [] \<longleftrightarrow> \<not> (\<exists>b\<in>set xs. P b)"
proof -
  have "(\<exists>b\<in>set xs. P b) \<longleftrightarrow> (\<exists>i<length xs. P (xs ! i))"
    by (metis in_set_conv_nth)
  then show ?thesis
    by (simp add: filter_upt_empty)
qed

lemma bracket_indices_Inl:
  "bracket_indices tbins t = Inl e \<longleftrightarrow>
     e = IndexError \<and> \<not> ((\<exists>b\<in>set tbins. b < t) \<and> (\<exists>b\<in>set tbins. t < b))"
  unfolding bracket_indices_eq
  using filter_idx_empty [of "\<lambda>b. b < t" tbins] filter_idx_empty [of "\<lambda>b. t < b" tbins]
  by auto

lemma bracket_indices_Inr:
  assumes "bracket_indices tbins t = Inr (i1, i2)"
  shows "i1 < length tbins \<and> i2 < length tbins \<and> tbins ! i1 < t \<and> t < tbins ! i2
         \<and> (\<forall>j. i1 < j \<and> j < length tbins \<longrightarrow> \<not> tbins ! j < t)
         \<and> (\<forall>j<i2. \<not> t < tbins ! j)"
proof -
  let ?lo = "filter (\<lambda>i. tbins ! i < t) [0..<length tbins]"
  let ?hi = "filter (\<lambda>i. t < tbins ! i) [0..<length tbins]"
  from assms have lo: "?lo \<noteq> []" and hi: "?hi \<noteq> []" and i1: "i1 = last ?lo" and i2: "i2 = hd ?hi"
    unfolding bracket_indices_eq by (simp_all split: if_splits)
  from last_filter_upt [OF lo] hd_filter_upt [OF hi] show ?thesis
    unfolding i1 i2 by blast
qed

lemma bracket_indices_total:
  assumes "\<exists>b\<in>set tbins. b < t" and "\<exists>b\<in>set tbins. t < b"
  shows "\<exists>i1 i2. bracket_indices tbins t = Inr (i1, i2)"
proof (cases "bracket_indices tbins t")
  case (Inl e)
  with assms show ?thesis by (simp add: bracket_indices_Inl)
next
  case (Inr p)
  then show ?thesis by (cases p) simp
qed

section \<open>Properties of opt\_pd\_calc\<close>

lemma opt_pd_calc_checked:
  assumes "length ref = length sig" "length offset = length sig"
    "nrows tarray = length sig" "ncols tarray = length tbins"
  shows "opt_pd_calc ref sig offset tintrn tbins tarray =
     (case bracket_indices tbins tintrn of
        Inl e \<Rightarrow> Inl e
      | Inr (ind1, ind2) \<Rightarrow>
          Inr (map2 (\<lambda>x d. x - d)
                 (map2 (\<lambda>off q. off - (1 / 0.25) * ln q) offset (map2 (\<lambda>s r. s / r) sig ref))
                 (map2 (\<lambda>d0 d1. d0 + ((tintrn - tbins ! ind1) / (tbins ! ind2 - tbins ! ind1)) * (d1 - d0))
                    (column tarray ind1) (column tarray ind2)),
               map2 (\<lambda>d0 d1. d0 + ((tintrn - tbins ! ind1) / (tbins ! ind2 - tbins ! ind1)) * (d1 - d0))
                 (column tarray ind1) (column tarray ind2)))"
  using assms by (simp add: opt_pd_calc_def Let_def split: sum.splits prod.splits)

lemma sorted_last_below:
  assumes "sorted tbins" "i1 < length tbins" "tbins ! i1 < t"
    "\<forall>j. i1 < j \<and> j < length tbins \<longrightarrow> \<not> tbins ! j < t"
  shows "tbins ! i1 = Max {b \<in> set tbins. b < t}"
proof (rule Max_eqI [symmetric])
  show "finite {b \<in> set tbins. b < t}" by simp
  show "tbins ! i1 \<in> {b \<in> set tbins. b < t}" using assms by simp
  fix y assume "y \<in> {b \<in> set tbins. b < t}"
  then obtain j where j: "j < length tbins" "tbins ! j = y" "y < t"
    by (auto simp: in_set_conv_nth)
  with assms(4) have "j \<le> i1" by (metis not_le_imp_less)
  with assms(1,2) j show "y \<le> tbins ! i1" by (metis sorted_nth_mono)
qed

lemma sorted_first_above:
  assumes "sorted tbins" "i2 < length tbins" "t < tbins ! i2"
    "\<forall>j<i2. \<not> t < tbins ! j"
  shows "tbins ! i2 = Min {b \<in> set tbins. t < b}"
proof (rule Min_eqI [symmetric])
  show "finite {b \<in> set tbins. t < b}" by simp
  show "tbins ! i2 \<in> {b \<in> set tbins. t < b}" using assms by simp
  fix y assume "y \<in> {b \<in> set tbins. t < b}"
  then obtain j where j: "j < length tbins" "tbins ! j = y" "t < y"
    by (auto simp: in_set_conv_nth)
  with assms(4) have "i2 \<le> j" by (metis not_le_imp_less)
  with assms(1) j show "tbins ! i2 \<le> y" by (metis sorted_nth_mono)
qed

text \<open>
  Claim C2, as amended. On a bin grid sorted ascending, whenever some bin lies strictly
  below and some bin strictly above the internal temperature, \<open>opt_pd_calc\<close> brackets it
  by the largest bin strictly below and the smallest bin strictly above: both comparisons
  of the source are strict. The correction returned is interpolated between the
  correction-table columns of these two bins.
\<close>

theorem opt_pd_calc_brackets:
  assumes "sorted tbins"
    and "length ref = length sig" "length offset = length sig"
    and "nrows tarray = length sig" "ncols tarray = length tbins"
    and "\<exists>b\<in>set tbins. b < tintrn" "\<exists>b\<in>set tbins. tintrn < b"
  shows "\<exists>ind1 ind2 pd.
           ind1 < length tbins \<and> ind2 < length tbins
         \<and> tbins ! ind1 = Max {b \<in> set tbins. b < tintrn}
         \<and> tbins ! ind2 = Min {b \<in> set tbins. tintrn < b}
         \<and> tbins ! ind1 < tintrn \<and> tintrn < tbins ! ind2
         \<and> opt_pd_calc ref sig offset tintrn tbins tarray =
             Inr (pd, map2 (\<lambda>d0 d1. d0 + ((tintrn - tbins ! ind1) / (tbins ! ind2 - tbins ! ind1)) * (d1 - d0))
                        (column tarray ind1) (column tarray ind2))"
proof -
  from bracket_indices_total [OF assms(6,7)]
  obtain i1 i2 where b: "bracket_indices tbins tintrn = Inr (i1, i2)" by blast
  note p = bracket_indices_Inr [OF b]
  have "tbins ! i1 = Max {b \<in> set tbins. b < tintrn}"
    using p assms(1) by (intro sorted_last_below) simp_all
  moreover have "tbins ! i2 = Min {b \<in> set tbins. tintrn < b}"
    using p assms(1) by (intro sorted_first_above) simp_all
  moreover note p
  moreover have "\<exists>pd. opt_pd_calc ref sig offset tintrn tbins tarray =
             Inr (pd, map2 (\<lambda>d0 d1. d0 + ((tintrn - tbins ! i1) / (tbins ! i2 - tbins ! i1)) * (d1 - d0))
                        (column tarray i1) (column tarray i2))"
    by (simp add: opt_pd_calc_checked [OF assms(2-5)] b)
  ultimately show ?thesis by blast
qed

text \<open>
  The claim as stated in C2 fails: at an internal temperature equal to the interior bin
  value 15 of the grid 10, 15, 20, 25 the upper bracketing bin is 20, not 15, and the
  correction is interpolated between the columns of the bins 10 and 20.
\<close>

theorem opt_pd_calc_brackets_counterexample:
  "sorted [10, 15, 20, 25 :: real]
   \<and> bracket_indices [10, 15, 20, 25] 15 = Inr (0, 2)
   \<and> [10, 15, 20, 25 :: real] ! 2 = 20
   \<and> opt_pd_calc [1] [1] [0] 15 [10, 15, 20, 25]
       \<lparr>nrows = 1, ncols = 4, rows_of = [[0, 1, 4, 9]]\<rparr> = Inr ([- 2], [2])"
  by (simp add: opt_pd_calc_def bracket_indices_eq upt_rec column_def)

lemma opt_pd_calc_IndexError:
  assumes "length ref = length sig" "length offset = length sig"
    "nrows tarray = length sig" "ncols tarray = length tbins"
  shows "opt_pd_calc ref sig offset tintrn tbins tarray = Inl IndexError \<longleftrightarrow>
           \<not> ((\<exists>b\<in>set tbins. b < tintrn) \<and> (\<exists>b\<in>set tbins. tintrn < b))"
proof (cases "bracket_indices tbins tintrn")
  case (Inl e)
  then show ?thesis
    using bracket_indices_Inl [of tbins tintrn e]
    by (simp add: opt_pd_calc_checked [OF assms])
next
  case (Inr p)
  obtain i1 i2 where p: "p = (i1, i2)" by (cases p)
  from bracket_indices_Inr [OF Inr [unfolded p]]
  have "(\<exists>b\<in>set tbins. b < tintrn) \<and> (\<exists>b\<in>set tbins. tintrn < b)"
    by (meson nth_mem)
  then show ?thesis
    by (simp add: opt_pd_calc_checked [OF assms] Inr p)
qed

lemma opt_pd_calc_succeeds:
  assumes "length ref = length sig" "length offset = length sig"
    "nrows tarray = length sig" "ncols tarray = length tbins"
  shows "(\<exists>pd deltaT. opt_pd_calc ref sig offset tintrn tbins tarray = Inr (pd, deltaT)) \<longleftrightarrow>
           (\<exists>b\<in>set tbins. b < tintrn) \<and> (\<exists>b\<in>set tbins. tintrn < b)"
proof (cases "bracket_indices tbins tintrn")
  case (Inl e)
  then show ?thesis
    using bracket_indices_Inl [of tbins tintrn e]
    by (simp add: opt_pd_calc_checked [OF assms])
next
  case (Inr p)
  obtain i1 i2 where p: "p = (i1, i2)" by (cases p)
  from bracket_indices_Inr [OF Inr [unfolded p]]
  have "(\<exists>b\<in>set tbins. b < tintrn) \<and> (\<exists>b\<in>set tbins. tintrn < b)"
    by (meson nth_mem)
  then show ?thesis
    by (simp add: opt_pd_calc_checked [OF assms] Inr p)
qed

text \<open>
  Claim C3. With the shape contract satisfied, \<open>opt_pd_calc\<close> raises \<open>IndexError\<close>
  whenever the grid is empty or the internal temperature is at or below the smallest bin
  or at or above the largest one, and it returns a result whenever the temperature lies
  strictly between the smallest and the largest bin. With the grid 10, 15, 20, 25 the
  temperatures 5 and 30 fail, and 17 succeeds with the correction interpolated between
  the columns of the bins 15 and 20 (columns 1 and 2).
\<close>

theorem opt_pd_calc_grid:
  assumes "length ref = length sig" "length offset = length sig"
    "nrows tarray = length sig" "ncols tarray = length tbins"
  shows "((tbins = [] \<or> tintrn \<le> Min (set tbins) \<or> Max (set tbins) \<le> tintrn)
            \<longrightarrow> opt_pd_calc ref sig offset tintrn tbins tarray = Inl IndexError)
       \<and> ((tbins \<noteq> [] \<and> Min (set tbins) < tintrn \<and> tintrn < Max (set tbins))
            \<longrightarrow> (\<exists>pd deltaT. opt_pd_calc ref sig offset tintrn tbins tarray = Inr (pd, deltaT)))
       \<and> (tbins = [10, 15, 20, 25]
            \<longrightarrow> opt_pd_calc ref sig offset 5 tbins tarray = Inl IndexError
              \<and> opt_pd_calc ref sig offset 30 tbins tarray = Inl IndexError
              \<and> (\<exists>pd. opt_pd_calc ref sig offset 17 tbins tarray =
                    Inr (pd, map2 (\<lambda>d0 d1. d0 + ((17 - 15) / (20 - 15)) * (d1 - d0))
                               (column tarray 1) (column tarray 2))))"
proof (intro conjI impI)
  assume "tbins = [] \<or> tintrn \<le> Min (set tbins) \<or> Max (set tbins) \<le> tintrn"
  then have "\<not> ((\<exists>b\<in>set tbins. b < tintrn) \<and> (\<exists>b\<in>set tbins. tintrn < b))"
  proof (elim disjE)
    assume "tbins = []" then show ?thesis by simp
  next
    assume "tintrn \<le> Min (set tbins)"
    then have "\<not> (\<exists>b\<in>set tbins. b < tintrn)"
      by (metis List.finite_set Min_le leD le_less_trans)
    then show ?thesis by simp
  next
    assume "Max (set tbins) \<le> tintrn"
    then have "\<not> (\<exists>b\<in>set tbins. tintrn < b)"
      by (metis List.finite_set Max_ge leD less_le_trans)
    then show ?thesis by simp
  qed
  then show "opt_pd_calc ref sig offset tintrn tbins tarray = Inl IndexError"
    by (simp add: opt_pd_calc_IndexError [OF assms])
next
  assume a: "tbins \<noteq> [] \<and> Min (set tbins) < tintrn \<and> tintrn < Max (set tbins)"
  then have "Min (set tbins) \<in> set tbins" "Max (set tbins) \<in> set tbins"
    by simp_all
  with a have "(\<exists>b\<in>set tbins. b < tintrn) \<and> (\<exists>b\<in>set tbins. tintrn < b)" by blast
  then show "\<exists>pd deltaT. opt_pd_calc ref sig offset tintrn tbins tarray = Inr (pd, deltaT)"
    by (simp add: opt_pd_calc_succeeds [OF assms])
next
  assume t: "tbins = [10, 15, 20, 25]"
  show "opt_pd_calc ref sig offset 5 tbins tarray = Inl IndexError"
    using opt_pd_calc_IndexError [OF assms, of 5] by (simp add: t)
next
  assume t: "tbins = [10, 15, 20, 25]"
  show "opt_pd_calc ref sig offset 30 tbins tarray = Inl IndexError"
    using opt_pd_calc_IndexError [OF assms, of 30] by (simp add: t)
next
  assume t: "tbins = [10, 15, 20, 25]"
  have b: "bracket_indices tbins 17 = Inr (1, 2)"
    by (simp add: t bracket_indices_eq upt_rec)
  show "\<exists>pd. opt_pd_calc ref sig offset 17 tbins tarray =
          Inr (pd, map2 (\<lambda>d0 d1. d0 + ((17 - 15) / (20 - 15)) * (d1 - d0))
                     (column tarray 1) (column tarray 2))"
    by (simp add: opt_pd_calc_checked [OF assms] b) (simp add: t)
qed

theorem opt_pd_calc_grid_witness:
  "opt_pd_calc [1] [1] [0] 5 [10, 15, 20, 25]
       \<lparr>nrows = 1, ncols = 4, rows_of = [[0, 1, 4, 9]]\<rparr> = Inl IndexError
   \<and> opt_pd_calc [1] [1] [0] 30 [10, 15, 20, 25]
       \<lparr>nrows = 1, ncols = 4, rows_of = [[0, 1, 4, 9]]\<rparr> = Inl IndexError
   \<and> (\<exists>pd. opt_pd_calc [1] [1] [0] 17 [10, 15, 20, 25]
       \<lparr>nrows = 1, ncols = 4, rows_of = [[0, 1, 4, 9]]\<rparr> = Inr (pd, [11 / 5]))"
  using opt_pd_calc_grid [of "[1]" "[1]" "[0]"
      "\<lparr>nrows = 1, ncols = 4, rows_of = [[0, 1, 4, 9]]\<rparr>" "[10, 15, 20, 25]" 17]
  by (simp add: column_def)

lemma opt_pd_calc_not_ValueError:
  assumes "length ref = length sig" "length offset = length sig"
    "nrows tarray = length sig" "ncols tarray = length tbins"
  shows "opt_pd_calc ref sig offset tintrn tbins tarray \<noteq> Inl (ValueError msg)"
proof (cases "bracket_indices tbins tintrn")
  case (Inl e)
  then show ?thesis
    using bracket_indices_Inl [of tbins tintrn e]
    by (simp add: opt_pd_calc_checked [OF assms])
next
  case (Inr p)
  then show ?thesis
    by (cases p) (simp add: opt_pd_calc_checked [OF assms])
qed

text \<open>
  Claim C4, as amended. \<open>opt_pd_calc\<close> raises a \<open>ValueError\<close> if and only if one of the
  four shape conditions is violated, and the first violated check, in the order
  reference/signal, offset, table rows, table columns, fixes the message. The
  reference/signal message is a fixed text that names no length; the offset message
  names the offset length and the common signal/reference length; each table message
  names the two counts it compares. (The only other error is the \<open>IndexError\<close> of the
  bracket search, see C3.)
\<close>

theorem opt_pd_calc_shape_errors:
  "((\<exists>msg. opt_pd_calc ref sig offset tintrn tbins tarray = Inl (ValueError msg)) \<longleftrightarrow>
      (length ref \<noteq> length sig \<or> length offset \<noteq> length sig
       \<or> nrows tarray \<noteq> length sig \<or> ncols tarray \<noteq> length tbins))
   \<and> (length ref \<noteq> length sig \<longrightarrow>
        opt_pd_calc ref sig offset tintrn tbins tarray =
          Inl (ValueError [''Reference and Signal arrays must be the same length'']))
   \<and> (length ref = length sig \<and> length offset \<noteq> length sig \<longrightarrow>
        opt_pd_calc ref sig offset tintrn tbins tarray =
          Inl (ValueError
            [''The number of calibration offset channels ('' @ str_nat (length offset) @
             '') from the cal devfile must match the number of Signal and Reference channels ('' @
             str_nat (length sig) @ '') from the rawdata.'']))
   \<and> (length ref = length sig \<and> length offset = length sig \<and> nrows tarray \<noteq> length sig \<longrightarrow>
        opt_pd_calc ref sig offset tintrn tbins tarray =
          Inl (ValueError
            [''The number of rows in the internal temperature compensation calibration array ('' @
             str_nat (nrows tarray) @
             '') must match the number of wavelength channels in the rawdata ('' @
             str_nat (length sig) @ '').'']))
   \<and> (length ref = length sig \<and> length offset = length sig \<and> nrows tarray = length sig
        \<and> ncols tarray \<noteq> length tbins \<longrightarrow>
        opt_pd_calc ref sig offset tintrn tbins tarray =
          Inl (ValueError
            [''Number of columns in the internal temperature compensation calibration array ('' @
             str_nat (ncols tarray) @
             '') must match the number of internal temp comp cal bin values = ('' @
             str_nat (length tbins) @ '').'']))"
proof -
  have ok: "\<not> (\<exists>msg. opt_pd_calc ref sig offset tintrn tbins tarray = Inl (ValueError msg))"
    if "length ref = length sig" "length offset = length sig"
      "nrows tarray = length sig" "ncols tarray = length tbins"
    using opt_pd_calc_not_ValueError [OF that] by blast
  have m1: "opt_pd_calc ref sig offset tintrn tbins tarray =
          Inl (ValueError [''Reference and Signal arrays must be the same length''])"
    if "length ref \<noteq> length sig"
    using that by (simp add: opt_pd_calc_def)
  have m2: "opt_pd_calc ref sig offset tintrn tbins tarray =
          Inl (ValueError [offsetErrorString (length offset) (length sig)])"
    if "length ref = length sig" "length offset \<noteq> length sig"
    using that by (simp add: opt_pd_calc_def)
  have m3: "opt_pd_calc ref sig offset tintrn tbins tarray =
          Inl (ValueError [rErrorString (nrows tarray) (length sig)])"
    if "length ref = length sig" "length offset = length sig" "nrows tarray \<noteq> length sig"
    using that by (simp add: opt_pd_calc_def)
  have m4: "opt_pd_calc ref sig offset tintrn tbins tarray =
          Inl (ValueError [cErrorString (ncols tarray) (length tbins)])"
    if "length ref = length sig" "length offset = length sig" "nrows tarray = length sig"
      "ncols tarray \<noteq> length tbins"
    using that by (simp add: opt_pd_calc_def)
  show ?thesis
    using ok m1 m2 m3 m4
    unfolding offsetErrorString_def rErrorString_def cErrorString_def
    by (intro conjI impI iffI) metis+
qed

theorem opt_pd_calc_shape_errors_witness:
  "opt_pd_calc [1, 2, 3, 4] [1, 2, 3] [0, 0, 0] 17 [10, 15, 20, 25]
       \<lparr>nrows = 3, ncols = 4, rows_of = replicate 3 [0, 0, 0, 0]\<rparr> =
     Inl (ValueError [''Reference and Signal arrays must be the same length''])
   \<and> opt_pd_calc [1, 2, 3] [1, 2, 3] [0, 0] 17 [10, 15, 20, 25]
       \<lparr>nrows = 3, ncols = 4, rows_of = replicate 3 [0, 0, 0, 0]\<rparr> =
     Inl (ValueError
       [''The number of calibration offset channels (2) from the cal devfile must match the number of Signal and Reference channels (3) from the rawdata.''])"
  using opt_pd_calc_shape_errors [of "[1, 2, 3, 4]" "[1, 2, 3]" "[0, 0, 0]" 17 "[10, 15, 20, 25]"
      "\<lparr>nrows = 3, ncols = 4, rows_of = replicate 3 [0, 0, 0, 0]\<rparr>"]
    opt_pd_calc_shape_errors [of "[1, 2, 3]" "[1, 2, 3]" "[0, 0]" 17 "[10, 15, 20, 25]"
      "\<lparr>nrows = 3, ncols = 4, rows_of = replicate 3 [0, 0, 0, 0]\<rparr>"]
  by (simp add: str_nat.simps digit_chars_def)

text \<open>
  The claim as stated in C4 fails twice. With reference length 4 and signal length 3 the
  message contains neither length. And with all four shape conditions satisfied the
  function still raises an error, the \<open>IndexError\<close> of a temperature outside the grid.
\<close>

theorem opt_pd_calc_shape_errors_counterexample:
  "opt_pd_calc [1, 2, 3, 4] [1, 2, 3] [0, 0, 0] 17 [10, 15, 20, 25]
       \<lparr>nrows = 3, ncols = 4, rows_of = replicate 3 [0, 0, 0, 0]\<rparr> =
     Inl (ValueError [''Reference and Signal arrays must be the same length''])
   \<and> CHR ''4'' \<notin> set ''Reference and Signal arrays must be the same length''
   \<and> CHR ''3'' \<notin> set ''Reference and Signal arrays must be the same length''
   \<and> length [1 :: real] = length [1 :: real] \<and> length [0 :: real] = length [1 :: real]
   \<and> nrows \<lparr>nrows = 1, ncols = 4, rows_of = [[0, 0, 0, 0]]\<rparr> = length [1 :: real]
   \<and> ncols \<lparr>nrows = 1, ncols = 4, rows_of = [[0, 0, 0, 0]]\<rparr> = length [10, 15, 20, 25 :: real]
   \<and> opt_pd_calc [1] [1] [0] 30 [10, 15, 20, 25]
       \<lparr>nrows = 1, ncols = 4, rows_of = [[0, 0, 0, 0]]\<rparr> = Inl IndexError"
  by (simp add: opt_pd_calc_def bracket_indices_eq upt_rec)

lemma column_nth:
  "wf_array2d A \<Longrightarrow> i < nrows A \<Longrightarrow> column A j ! i = rows_of A ! i ! j"
  by (simp add: wf_array2d_def column_def)

lemma column_length: "wf_array2d A \<Longrightarrow> length (column A j) = nrows A"
  by (simp add: wf_array2d_def column_def)

text \<open>
  Claim C1. When the shape contract holds and the internal temperature lies strictly
  inside the bin grid, \<open>opt_pd_calc\<close> returns the pair \<open>(pd, deltaT)\<close>, both of the
  length of the signal. With \<open>ind1\<close> the last index of a bin below the temperature and
  \<open>ind2\<close> the first index of a bin above it, \<open>deltaT\<close> is, per wavelength channel, the
  linear interpolation between the table columns \<open>ind1\<close> and \<open>ind2\<close>, and
  \<open>pd = offset - (1/0.25) * ln (sig/ref) - deltaT\<close>.
\<close>

theorem opt_pd_calc_value:
  assumes "length ref = length sig" "length offset = length sig"
    and "nrows tarray = length sig" "ncols tarray = length tbins"
    and "wf_array2d tarray"
    and "\<exists>b\<in>set tbins. b < tintrn" "\<exists>b\<in>set tbins. tintrn < b"
  shows "\<exists>ind1 ind2 pd deltaT.
           opt_pd_calc ref sig offset tintrn tbins tarray = Inr (pd, deltaT)
         \<and> ind1 < length tbins \<and> ind2 < length tbins
         \<and> tbins ! ind1 < tintrn \<and> tintrn < tbins ! ind2
         \<and> (\<forall>j. ind1 < j \<and> j < length tbins \<longrightarrow> \<not> tbins ! j < tintrn)
         \<and> (\<forall>j<ind2. \<not> tintrn < tbins ! j)
         \<and> length pd = length sig \<and> length deltaT = length sig
         \<and> (\<forall>i<length sig.
               deltaT ! i = rows_of tarray ! i ! ind1
                 + ((tintrn - tbins ! ind1) / (tbins ! ind2 - tbins ! ind1))
                   * (rows_of tarray ! i ! ind2 - rows_of tarray ! i ! ind1)
             \<and> pd ! i = offset ! i - (1 / 0.25) * ln (sig ! i / ref ! i) - deltaT ! i)"
proof -
  from bracket_indices_total [OF assms(6,7)]
  obtain i1 i2 where b: "bracket_indices tbins tintrn = Inr (i1, i2)" by blast
  note p = bracket_indices_Inr [OF b]
  define deltaT where "deltaT =
    map2 (\<lambda>d0 d1. d0 + ((tintrn - tbins ! i1) / (tbins ! i2 - tbins ! i1)) * (d1 - d0))
      (column tarray i1) (column tarray i2)"
  define pd where "pd = map2 (\<lambda>x d. x - d)
      (map2 (\<lambda>off q. off - (1 / 0.25) * ln q) offset (map2 (\<lambda>s r. s / r) sig ref)) deltaT"
  have res: "opt_pd_calc ref sig offset tintrn tbins tarray = Inr (pd, deltaT)"
    by (simp add: opt_pd_calc_checked [OF assms(1-4)] b pd_def deltaT_def)
  have lenD: "length deltaT = length sig"
    by (simp add: deltaT_def column_length [OF assms(5)] assms(3))
  have lenP: "length pd = length sig"
    by (simp add: pd_def lenD assms(1,2))
  have nthD: "deltaT ! i = rows_of tarray ! i ! i1
                 + ((tintrn - tbins ! i1) / (tbins ! i2 - tbins ! i1))
                   * (rows_of tarray ! i ! i2 - rows_of tarray ! i ! i1)"
    if "i < length sig" for i
    using that
    by (simp add: deltaT_def column_length [OF assms(5)] column_nth [OF assms(5)] assms(3))
  have nthP: "pd ! i = offset ! i - (1 / 0.25) * ln (sig ! i / ref ! i) - deltaT ! i"
    if "i < length sig" for i
    using that by (simp add: pd_def lenD assms(1,2))
  show ?thesis
    apply (rule exI [of _ i1])
    apply (rule exI [of _ i2])
    apply (rule exI [of _ pd])
    apply (rule exI [of _ deltaT])
    using res p lenD lenP nthD nthP apply simp
    done
qed

theorem opt_pd_calc_value_witness:
  "\<exists>ind1 ind2 pd deltaT.
     opt_pd_calc [1] [1] [3] 17 [10, 15, 20, 25]
       \<lparr>nrows = 1, ncols = 4, rows_of = [[0, 1, 4, 9]]\<rparr> = Inr (pd, deltaT)
   \<and> ind1 < length [10, 15, 20, 25 :: real] \<and> ind2 < length [10, 15, 20, 25 :: real]
   \<and> [10, 15, 20, 25] ! ind1 < (17 :: real) \<and> (17 :: real) < [10, 15, 20, 25] ! ind2
   \<and> length pd = 1 \<and> length deltaT = 1
   \<and> deltaT ! 0 = [0, 1, 4, 9] ! ind1
        + ((17 - [10, 15, 20, 25] ! ind1) / ([10, 15, 20, 25] ! ind2 - [10, 15, 20, 25] ! ind1))
          * ([0, 1, 4, 9] ! ind2 - [0, 1, 4, 9] ! ind1)
   \<and> pd ! 0 = 3 - deltaT ! 0"
proof -
  have h: "length [1 :: real] = length [1 :: real]" "length [3 :: real] = length [1 :: real]"
    "nrows \<lparr>nrows = 1, ncols = 4, rows_of = [[0, 1, 4, 9]]\<rparr> = length [1 :: real]"
    "ncols \<lparr>nrows = 1, ncols = 4, rows_of = [[0, 1, 4, 9]]\<rparr> = length [10, 15, 20, 25 :: real]"
    "wf_array2d \<lparr>nrows = 1, ncols = 4, rows_of = [[0, 1, 4, 9]]\<rparr>"
    "\<exists>b\<in>set [10, 15, 20, 25 :: real]. b < 17" "\<exists>b\<in>set [10, 15, 20, 25 :: real]. 17 < b"
    by (simp_all add: wf_array2d_def)
  from opt_pd_calc_value [OF h]
  obtain ind1 ind2 pd deltaT where r:
    "opt_pd_calc [1] [1] [3] 17 [10, 15, 20, 25]
       \<lparr>nrows = 1, ncols = 4, rows_of = [[0, 1, 4, 9]]\<rparr> = Inr (pd, deltaT)"
    "ind1 < length [10, 15, 20, 25 :: real]" "ind2 < length [10, 15, 20, 25 :: real]"
    "[10, 15, 20, 25] ! ind1 < (17 :: real)" "(17 :: real) < [10, 15, 20, 25] ! ind2"
    "length pd = length [1 :: real]" "length deltaT = length [1 :: real]"
    "\<forall>i<length [1 :: real].
        deltaT ! i = rows_of \<lparr>nrows = 1, ncols = 4, rows_of = [[0, 1, 4, 9]]\<rparr> ! i ! ind1
          + ((17 - [10, 15, 20, 25] ! ind1) / ([10, 15, 20, 25] ! ind2 - [10, 15, 20, 25] ! ind1))
            * (rows_of \<lparr>nrows = 1, ncols = 4, rows_of = [[0, 1, 4, 9]]\<rparr> ! i ! ind2
               - rows_of \<lparr>nrows = 1, ncols = 4, rows_of = [[0, 1, 4, 9]]\<rparr> ! i ! ind1)
        \<and> pd ! i = [3] ! i - (1 / 0.25) * ln ([1] ! i / [1] ! i) - deltaT ! i"
    by blast
  from r(8) have "deltaT ! 0 = [0, 1, 4, 9] ! ind1
        + ((17 - [10, 15, 20, 25] ! ind1) / ([10, 15, 20, 25] ! ind2 - [10, 15, 20, 25] ! ind1))
          * ([0, 1, 4, 9] ! ind2 - [0, 1, 4, 9] ! ind1)
      \<and> pd ! 0 = 3 - deltaT ! 0"
    by simp
  then have d: "deltaT ! 0 = [0, 1, 4, 9] ! ind1
        + ((17 - [10, 15, 20, 25] ! ind1) / ([10, 15, 20, 25] ! ind2 - [10, 15, 20, 25] ! ind1))
          * ([0, 1, 4, 9] ! ind2 - [0, 1, 4, 9] ! ind1)"
    and e: "pd ! 0 = 3 - deltaT ! 0"
    by blast+
  from r(6,7) have l: "length pd = 1" "length deltaT = 1" by simp_all
  show ?thesis
    apply (rule exI [of _ ind1])
    apply (rule exI [of _ ind2])
    apply (rule exI [of _ pd])
    apply (rule exI [of _ deltaT])
    apply (intro conjI)
            apply (rule r(1))
           apply (rule r(2))
          apply (rule r(3))
         apply (rule r(4))
        apply (rule r(5))
       apply (rule l(1))
      apply (rule l(2))
     apply (rule d)
    apply (rule e)
    done
qed

theorem opt_pd_calc_brackets_witness:
  "\<exists>ind1 ind2 pd.
     [10, 15, 20, 25] ! ind1 = (10 :: real) \<and> [10, 15, 20, 25] ! ind2 = (20 :: real)
   \<and> opt_pd_calc [1] [1] [0] 15 [10, 15, 20, 25]
       \<lparr>nrows = 1, ncols = 4, rows_of = [[0, 1, 4, 9]]\<rparr> =
       Inr (pd, map2 (\<lambda>d0 d1. d0 + ((15 - 10) / (20 - 10)) * (d1 - d0))
                  (column \<lparr>nrows = 1, ncols = 4, rows_of = [[0, 1, 4, 9]]\<rparr> ind1)
                  (column \<lparr>nrows = 1, ncols = 4, rows_of = [[0, 1, 4, 9]]\<rparr> ind2))"
proof -
  have h: "sorted [10, 15, 20, 25 :: real]"
    "length [1 :: real] = length [1 :: real]" "length [0 :: real] = length [1 :: real]"
    "nrows \<lparr>nrows = 1, ncols = 4, rows_of = [[0, 1, 4, 9]]\<rparr> = length [1 :: real]"
    "ncols \<lparr>nrows = 1, ncols = 4, rows_of = [[0, 1, 4, 9]]\<rparr> = length [10, 15, 20, 25 :: real]"
    "\<exists>b\<in>set [10, 15, 20, 25 :: real]. b < 15" "\<exists>b\<in>set [10, 15, 20, 25 :: real]. 15 < b"
    by simp_all
  have mx: "Max {b \<in> set [10, 15, 20, 25 :: real]. b < 15} = 10"
    by (rule Max_eqI) auto
  have mn: "Min {b \<in> set [10, 15, 20, 25 :: real]. 15 < b} = 20"
    by (rule Min_eqI) auto
  from opt_pd_calc_brackets [OF h]
  obtain ind1 ind2 pd where r:
    "[10, 15, 20, 25] ! ind1 = Max {b \<in> set [10, 15, 20, 25 :: real]. b < 15}"
    "[10, 15, 20, 25] ! ind2 = Min {b \<in> set [10, 15, 20, 25 :: real]. 15 < b}"
    "opt_pd_calc [1] [1] [0] 15 [10, 15, 20, 25]
       \<lparr>nrows = 1, ncols = 4, rows_of = [[0, 1, 4, 9]]\<rparr> =
       Inr (pd, map2 (\<lambda>d0 d1. d0 + ((15 - [10, 15, 20, 25] ! ind1)
                        / ([10, 15, 20, 25] ! ind2 - [10, 15, 20, 25] ! ind1)) * (d1 - d0))
                  (column \<lparr>nrows = 1, ncols = 4, rows_of = [[0, 1, 4, 9]]\<rparr> ind1)
                  (column \<lparr>nrows = 1, ncols = 4, rows_of = [[0, 1, 4, 9]]\<rparr> ind2))"
    by blast
  have a: "[10, 15, 20, 25] ! ind1 = (10 :: real)" using r(1) by (simp only: mx)
  have b: "[10, 15, 20, 25] ! ind2 = (20 :: real)" using r(2) by (simp only: mn)
  show ?thesis
    apply (rule exI [of _ ind1])
    apply (rule exI [of _ ind2])
    apply (rule exI [of _ pd])
    apply (intro conjI)
      apply (rule a)
     apply (rule b)
    using r(3) apply (simp only: a b)
    done
qed

section \<open>Properties of opt\_tempsal\_corr\<close>

lemma tscor_rows_present:
  "\<forall>w\<in>set ws. tscor w \<noteq> None \<Longrightarrow> tscor_rows tscor ws = Inr (map (\<lambda>w. the (tscor w)) ws)"
  by (induction ws) auto

lemma tscor_rows_Inl:
  "tscor_rows tscor ws = Inl e \<longleftrightarrow> e = KeyError \<and> (\<exists>w\<in>set ws. tscor w = None)"
proof (induction ws)
  case Nil
  then show ?case by simp
next
  case (Cons w ws)
  then show ?case
    by (cases "tscor w"; cases "tscor_rows tscor ws") auto
qed

lemma opt_tempsal_corr_nonempty:
  assumes "length pd = length wlngth" "wlngth \<noteq> []" "\<forall>w\<in>set wlngth. tscor w \<noteq> None"
    and "channel = ''a'' \<or> channel = ''c''"
  shows "opt_tempsal_corr tscor channel pd wlngth tcal T PS =
     Inr (map2 (\<lambda>x y. x - y)
            (map2 (\<lambda>x y. x - y) pd
               (map (\<lambda>t. (T - tcal) * t) (map (\<lambda>w. fst (the (tscor w))) wlngth)))
            (map (\<lambda>s. PS * s)
               (map (\<lambda>w. if channel = ''c'' then fst (snd (the (tscor w)))
                           else snd (snd (the (tscor w)))) wlngth)))"
proof -
  have rows: "tscor_rows tscor wlngth = Inr (map (\<lambda>w. the (tscor w)) wlngth)"
    using assms(3) by (rule tscor_rows_present)
  have c0: "tscor_column (map (\<lambda>w. the (tscor w)) wlngth) 0 =
              Inr (map (\<lambda>w. fst (the (tscor w))) wlngth)"
    using assms(2) by (simp add: tscor_column_def case_prod_beta)
  have c1: "tscor_column (map (\<lambda>w. the (tscor w)) wlngth) (Suc 0) =
              Inr (map (\<lambda>w. fst (snd (the (tscor w)))) wlngth)"
    using assms(2) by (simp add: tscor_column_def case_prod_beta)
  have c2: "tscor_column (map (\<lambda>w. the (tscor w)) wlngth) 2 =
              Inr (map (\<lambda>w. snd (snd (the (tscor w)))) wlngth)"
    using assms(2) by (simp add: tscor_column_def case_prod_beta)
  from assms(4) show ?thesis
  proof
    assume "channel = ''a''"
    then show ?thesis
      by (simp add: opt_tempsal_corr_def assms(1) rows c0 c2 Let_def)
  next
    assume "channel = ''c''"
    then show ?thesis
      by (simp add: opt_tempsal_corr_def assms(1) rows c0 c1 Let_def)
  qed
qed

text \<open>
  Claim C5, as amended. For non-empty coefficient and wavelength arrays of equal length,
  a channel tag \<open>'a'\<close> or \<open>'c'\<close>, and every wavelength, as passed, a key of the static
  table, \<open>opt_tempsal_corr\<close> returns, per wavelength,
  \<open>pd - (T - tcal) * temp_coef - PS * sal_coef\<close>, where the table holds
  \<open>(temp_coef, sal_c, sal_a)\<close> for that wavelength and \<open>sal_coef\<close> is \<open>sal_c\<close> for
  channel \<open>'c'\<close> and \<open>sal_a\<close> for channel \<open>'a'\<close>. The function does not round the
  wavelengths; its callers do.
\<close>

theorem opt_tempsal_corr_value:
  assumes "length pd = length wlngth" "wlngth \<noteq> []" "\<forall>w\<in>set wlngth. tscor w \<noteq> None"
    and "channel = ''a'' \<or> channel = ''c''"
  shows "\<exists>pd_ts. opt_tempsal_corr tscor channel pd wlngth tcal T PS = Inr pd_ts
           \<and> length pd_ts = length pd
           \<and> (\<forall>i<length pd. \<exists>temp_coef sal_c sal_a.
                 tscor (wlngth ! i) = Some (temp_coef, sal_c, sal_a)
               \<and> pd_ts ! i = pd ! i - (T - tcal) * temp_coef
                               - PS * (if channel = ''c'' then sal_c else sal_a))"
proof -
  let ?r = "map2 (\<lambda>x y. x - y)
            (map2 (\<lambda>x y. x - y) pd
               (map (\<lambda>t. (T - tcal) * t) (map (\<lambda>w. fst (the (tscor w))) wlngth)))
            (map (\<lambda>s. PS * s)
               (map (\<lambda>w. if channel = ''c'' then fst (snd (the (tscor w)))
                           else snd (snd (the (tscor w)))) wlngth))"
  have res: "opt_tempsal_corr tscor channel pd wlngth tcal T PS = Inr ?r"
    by (rule opt_tempsal_corr_nonempty [OF assms])
  have len: "length ?r = length pd" using assms(1) by simp
  have nth: "\<exists>temp_coef sal_c sal_a.
                 tscor (wlngth ! i) = Some (temp_coef, sal_c, sal_a)
               \<and> ?r ! i = pd ! i - (T - tcal) * temp_coef
                               - PS * (if channel = ''c'' then sal_c else sal_a)"
    if "i < length pd" for i
  proof -
    from that assms(1) have "wlngth ! i \<in> set wlngth" by simp
    with assms(3) obtain tc sc sa where s: "tscor (wlngth ! i) = Some (tc, sc, sa)"
      by (metis not_Some_eq prod_cases3)
    have "?r ! i = pd ! i - (T - tcal) * tc - PS * (if channel = ''c'' then sc else sa)"
      using that assms(1) by (simp add: s)
    with s show ?thesis by blast
  qed
  show ?thesis
    apply (rule exI [of _ ?r])
    using res len nth apply blast
    done
qed

theorem opt_tempsal_corr_value_witness:
  "\<exists>pd_ts. opt_tempsal_corr (Map.empty(400 \<mapsto> (1, 2, 3))) ''c'' [10] [400] 20 25 35 = Inr pd_ts
     \<and> length pd_ts = 1 \<and> pd_ts ! 0 = - 65"
proof -
  have h: "length [10 :: real] = length [400 :: real]" "[400 :: real] \<noteq> []"
    "\<forall>w\<in>set [400 :: real]. (Map.empty(400 \<mapsto> (1 :: real, 2 :: real, 3 :: real))) w \<noteq> None"
    "''c'' = ''a'' \<or> ''c'' = ''c''"
    by simp_all
  from opt_tempsal_corr_value [OF h, of 20 25 35]
  obtain pd_ts where r:
    "opt_tempsal_corr (Map.empty(400 \<mapsto> (1, 2, 3))) ''c'' [10] [400] 20 25 35 = Inr pd_ts"
    "length pd_ts = length [10 :: real]"
    "\<forall>i<length [10 :: real]. \<exists>temp_coef sal_c sal_a.
        (Map.empty(400 \<mapsto> (1 :: real, 2 :: real, 3 :: real))) ([400 :: real] ! i) = Some (temp_coef, sal_c, sal_a)
      \<and> pd_ts ! i = [10] ! i - (25 - 20) * temp_coef
                      - 35 * (if ''c'' = ''c'' then sal_c else sal_a)"
    by blast
  from r(3) have "pd_ts ! 0 = - 65" by simp
  with r(1,2) show ?thesis by simp
qed

text \<open>
  The claim as stated in C5 fails. The wavelength 400.04 is present in the table after
  rounding to one decimal (400.0), yet the lookup is made with the unrounded value and
  raises \<open>KeyError\<close>. And for empty arrays, whose (no) wavelengths are all present, the
  function raises \<open>IndexError\<close> instead of returning a result.
\<close>

theorem opt_tempsal_corr_value_counterexample:
  "around1 (40004 / 100) = 400
   \<and> (Map.empty(400 \<mapsto> (1 :: real, 2 :: real, 3 :: real))) (around1 (40004 / 100)) = Some (1, 2, 3)
   \<and> opt_tempsal_corr (Map.empty(400 \<mapsto> (1, 2, 3))) ''a'' [10] [40004 / 100] 20 25 35 = Inl KeyError
   \<and> opt_tempsal_corr (Map.empty(400 \<mapsto> (1, 2, 3))) ''a'' [] [] 20 25 35 = Inl IndexError"
proof -
  have fl: "\<lfloor>(40004 :: real) / 10\<rfloor> = 4000" by linarith
  have a: "around1 (40004 / 100) = 400"
    by (simp add: around1_def rint_def Let_def fl)
  show ?thesis
    unfolding a by (simp add: opt_tempsal_corr_def tscor_column_def)
qed

text \<open>
  Claim C6 at its failing input. With empty coefficient and wavelength arrays and a
  recognized channel tag none of the three failure conditions of the claim holds, and
  the function raises \<open>IndexError\<close>: the list comprehension yields an empty list,
  \<^verbatim>\<open>np.array([])\<close> is one-dimensional, and \<^verbatim>\<open>np_tscor[:, 0]\<close> has too many indices.
\<close>

theorem opt_tempsal_corr_empty:
  "opt_tempsal_corr tscor ''a'' [] [] tcal T PS = Inl IndexError
   \<and> opt_tempsal_corr tscor ''c'' [] [] tcal T PS = Inl IndexError"
  by (simp add: opt_tempsal_corr_def tscor_column_def)

lemma tscor_rows_missing:
  "\<exists>w\<in>set ws. tscor w = None \<Longrightarrow> tscor_rows tscor ws = Inl KeyError"
  by (simp add: tscor_rows_Inl)

text \<open>
  For non-empty wavelength arrays the failure conditions are exactly the three of C6.
\<close>

lemma opt_tempsal_corr_fails_iff:
  assumes "wlngth \<noteq> []"
  shows "(\<exists>e. opt_tempsal_corr tscor channel pd wlngth tcal T PS = Inl e) \<longleftrightarrow>
           (length pd \<noteq> length wlngth \<or> (\<exists>w\<in>set wlngth. tscor w = None)
            \<or> (channel \<noteq> ''a'' \<and> channel \<noteq> ''c''))"
proof
  assume L: "\<exists>e. opt_tempsal_corr tscor channel pd wlngth tcal T PS = Inl e"
  show "length pd \<noteq> length wlngth \<or> (\<exists>w\<in>set wlngth. tscor w = None)
            \<or> (channel \<noteq> ''a'' \<and> channel \<noteq> ''c'')"
  proof (rule ccontr)
    assume n: "\<not> (length pd \<noteq> length wlngth \<or> (\<exists>w\<in>set wlngth. tscor w = None)
            \<or> (channel \<noteq> ''a'' \<and> channel \<noteq> ''c''))"
    from n have a: "length pd = length wlngth" by simp
    from n have b: "\<forall>w\<in>set wlngth. tscor w \<noteq> None" by simp
    from n have c: "channel = ''a'' \<or> channel = ''c''" by auto
    from opt_tempsal_corr_nonempty [OF a assms b c, of tcal T PS] L show False by simp
  qed
next
  assume R: "length pd \<noteq> length wlngth \<or> (\<exists>w\<in>set wlngth. tscor w = None)
            \<or> (channel \<noteq> ''a'' \<and> channel \<noteq> ''c'')"
  show "\<exists>e. opt_tempsal_corr tscor channel pd wlngth tcal T PS = Inl e"
  proof (cases "length pd = length wlngth")
    case l: False
    then show ?thesis by (simp add: opt_tempsal_corr_def)
  next
    case l: True
    show ?thesis
    proof (cases "\<exists>w\<in>set wlngth. tscor w = None")
      case m: True
      then show ?thesis
        by (simp only: opt_tempsal_corr_def l tscor_rows_missing [OF m]) simp
    next
      case m: False
      with R l have ch: "channel \<noteq> ''a'' \<and> channel \<noteq> ''c''" by simp
      from m have "\<forall>w\<in>set wlngth. tscor w \<noteq> None" by simp
      then have rows: "tscor_rows tscor wlngth = Inr (map (\<lambda>w. the (tscor w)) wlngth)"
        by (rule tscor_rows_present)
      from ch show ?thesis by (simp add: opt_tempsal_corr_def l rows)
    qed
  qed
qed

section \<open>Properties of opt\_scatter\_corr\<close>

lemma argmin_scan_props:
  assumes "best < length ys" "bv = ys ! best" "\<forall>j<length ys. bv \<le> ys ! j"
    "\<forall>j<best. bv < ys ! j" "i = length ys"
  shows "argmin_scan xs i best bv < length (ys @ xs)
       \<and> (\<forall>j<length (ys @ xs). (ys @ xs) ! argmin_scan xs i best bv \<le> (ys @ xs) ! j)
       \<and> (\<forall>j<argmin_scan xs i best bv. (ys @ xs) ! argmin_scan xs i best bv < (ys @ xs) ! j)"
  using assms
proof (induction xs arbitrary: ys i best bv)
  case Nil
  then show ?case by simp
next
  case (Cons x xs)
  show ?case
  proof (cases "x < bv")
    case True
    have 1: "i < length (ys @ [x])" using Cons.prems(5) by simp
    have 2: "x = (ys @ [x]) ! i" using Cons.prems(5) by simp
    have 3: "\<forall>j<length (ys @ [x]). x \<le> (ys @ [x]) ! j"
    proof (intro allI impI)
      fix j assume "j < length (ys @ [x])"
      then consider "j < length ys" | "j = length ys" by fastforce
      then show "x \<le> (ys @ [x]) ! j"
      proof cases
        case 1
        with Cons.prems(3) True show ?thesis by (simp add: nth_append) (meson less_le_trans less_imp_le)
      next
        case 2
        then show ?thesis by simp
      qed
    qed
    have 4: "\<forall>j<i. x < (ys @ [x]) ! j"
    proof (intro allI impI)
      fix j assume "j < i"
      with Cons.prems(5) have j: "j < length ys" by simp
      with Cons.prems(3) have "bv \<le> ys ! j" by simp
      with True j show "x < (ys @ [x]) ! j" by (simp add: nth_append)
    qed
    have 5: "Suc i = length (ys @ [x])" using Cons.prems(5) by simp
    from Cons.IH [OF 1 2 3 4 5] True show ?thesis by simp
  next
    case False
    have 1: "best < length (ys @ [x])" using Cons.prems(1) by simp
    have 2: "bv = (ys @ [x]) ! best" using Cons.prems(1,2) by (simp add: nth_append)
    have 3: "\<forall>j<length (ys @ [x]). bv \<le> (ys @ [x]) ! j"
    proof (intro allI impI)
      fix j assume "j < length (ys @ [x])"
      then consider "j < length ys" | "j = length ys" by fastforce
      then show "bv \<le> (ys @ [x]) ! j"
      proof cases
        case 1
        with Cons.prems(3) show ?thesis by (simp add: nth_append)
      next
        case 2
        with False show ?thesis by simp
      qed
    qed
    have 4: "\<forall>j<best. bv < (ys @ [x]) ! j"
      using Cons.prems(1,4) by (simp add: nth_append)
    have 5: "Suc i = length (ys @ [x])" using Cons.prems(5) by simp
    from Cons.IH [OF 1 2 3 4 5] False show ?thesis by simp
  qed
qed

lemma argmin_props:
  assumes "xs \<noteq> []"
  shows "\<exists>idx. argmin xs = Inr idx \<and> idx < length xs
           \<and> (\<forall>j<length xs. xs ! idx \<le> xs ! j) \<and> (\<forall>j<idx. xs ! idx < xs ! j)"
proof -
  from assms obtain x rest where xs: "xs = x # rest" by (cases xs) auto
  have "argmin_scan rest (Suc 0) 0 x < length ([x] @ rest)
       \<and> (\<forall>j<length ([x] @ rest). ([x] @ rest) ! argmin_scan rest (Suc 0) 0 x \<le> ([x] @ rest) ! j)
       \<and> (\<forall>j<argmin_scan rest (Suc 0) 0 x. ([x] @ rest) ! argmin_scan rest (Suc 0) 0 x < ([x] @ rest) ! j)"
    by (rule argmin_scan_props) simp_all
  then show ?thesis
    by (simp add: xs argmin_def)
qed

lemma two_elems:
  assumes "Suc k < length xs"
  shows "\<exists>a b r. xs = a # b # r"
proof (cases xs)
  case Nil
  with assms show ?thesis by simp
next
  case (Cons a l)
  with assms show ?thesis by (cases l) simp_all
qed

lemma interp_segments_linear:
  assumes "sorted xp" "length fp = length xp" "Suc k < length xp" "xp ! k \<le> x" "x < xp ! Suc k"
  shows "interp_segments x xp fp =
           (fp ! Suc k - fp ! k) / (xp ! Suc k - xp ! k) * (x - xp ! k) + fp ! k"
  using assms
proof (induction k arbitrary: xp fp)
  case 0
  from two_elems [OF 0(3)] obtain x0 x1 xs where xp: "xp = x0 # x1 # xs" by blast
  from 0(2,3) have "Suc 0 < length fp" by simp
  from two_elems [OF this] obtain y0 y1 ys where fp: "fp = y0 # y1 # ys" by blast
  from 0(5) show ?case by (simp add: xp fp)
next
  case (Suc k)
  from two_elems [OF Suc.prems(3)] obtain x0 x1 xs where xp: "xp = x0 # x1 # xs" by blast
  from Suc.prems(2,3) have "Suc (Suc k) < length fp" by simp
  from two_elems [OF this] obtain y0 y1 ys where fp: "fp = y0 # y1 # ys" by blast
  have "xp ! 1 \<le> xp ! Suc k"
    using Suc.prems(1,3) by (intro sorted_nth_mono) simp_all
  with Suc.prems(4) have nl: "\<not> x < x1" by (simp add: xp)
  have s: "sorted (x1 # xs)" using Suc.prems(1) by (simp add: xp)
  have l: "length (y1 # ys) = length (x1 # xs)" using Suc.prems(2) by (simp add: xp fp)
  have k: "Suc k < length (x1 # xs)" using Suc.prems(3) by (simp add: xp)
  have lo: "(x1 # xs) ! k \<le> x" using Suc.prems(4) by (simp add: xp)
  have hi: "x < (x1 # xs) ! Suc k" using Suc.prems(5) by (simp add: xp)
  have "interp_segments x (x1 # xs) (y1 # ys) =
           ((y1 # ys) ! Suc k - (y1 # ys) ! k) / ((x1 # xs) ! Suc k - (x1 # xs) ! k)
             * (x - (x1 # xs) ! k) + (y1 # ys) ! k"
    by (rule Suc.IH [OF s l k lo hi])
  with nl show ?case by (simp add: xp fp)
qed

lemma interp1_linear:
  assumes "sorted xp" "length fp = length xp" "Suc k < length xp" "xp ! k \<le> x" "x < xp ! Suc k"
  shows "interp1 x xp fp =
           (fp ! Suc k - fp ! k) / (xp ! Suc k - xp ! k) * (x - xp ! k) + fp ! k"
proof -
  from assms(3) have ne: "xp \<noteq> []" by auto
  have "xp ! 0 \<le> xp ! k"
    using assms(1,3) by (intro sorted_nth_mono) simp_all
  with assms(4) ne have a: "\<not> x < hd xp" by (simp add: hd_conv_nth)
  have "xp ! Suc k \<le> xp ! (length xp - 1)"
    using assms(1,3) by (intro sorted_nth_mono) simp_all
  with assms(5) ne have b: "\<not> last xp < x" by (simp add: last_conv_nth)
  from a b show ?thesis
    by (simp add: interp1_def interp_segments_linear [OF assms])
qed

lemma opt_scatter_corr_eq:
  assumes "length apd_ts = length awlngth" "length cpd_ts = length cwlngth"
    "awlngth \<noteq> []" "cwlngth \<noteq> []"
  shows "\<exists>idx. idx < length awlngth
           \<and> (\<forall>j<length awlngth. \<bar>awlngth ! idx - rwlngth\<bar> \<le> \<bar>awlngth ! j - rwlngth\<bar>)
           \<and> (\<forall>j<idx. \<bar>awlngth ! idx - rwlngth\<bar> < \<bar>awlngth ! j - rwlngth\<bar>)
           \<and> opt_scatter_corr apd_ts awlngth cpd_ts cwlngth rwlngth =
               Inr (map2 (\<lambda>a c. a -
                      (if apd_ts ! idx \<le> 0 then 0
                       else if interp1 (awlngth ! idx) cwlngth cpd_ts - apd_ts ! idx \<le> 0.02 then 0
                       else apd_ts ! idx / (interp1 (awlngth ! idx) cwlngth cpd_ts - apd_ts ! idx))
                      * (c - a))
                    apd_ts (map (\<lambda>v. interp1 v cwlngth cpd_ts) awlngth))"
proof -
  have "map (\<lambda>w. \<bar>w - rwlngth\<bar>) awlngth \<noteq> []" using assms(3) by simp
  from argmin_props [OF this]
  obtain idx where i: "argmin (map (\<lambda>w. \<bar>w - rwlngth\<bar>) awlngth) = Inr idx"
    "idx < length awlngth"
    "\<forall>j<length awlngth. \<bar>awlngth ! idx - rwlngth\<bar> \<le> \<bar>awlngth ! j - rwlngth\<bar>"
    "\<forall>j<idx. \<bar>awlngth ! idx - rwlngth\<bar> < \<bar>awlngth ! j - rwlngth\<bar>"
    by auto
  have np: "np_interp awlngth cwlngth cpd_ts = Inr (map (\<lambda>v. interp1 v cwlngth cpd_ts) awlngth)"
    using assms(2,4) by (simp add: np_interp_def)
  have "opt_scatter_corr apd_ts awlngth cpd_ts cwlngth rwlngth =
               Inr (map2 (\<lambda>a c. a -
                      (if apd_ts ! idx \<le> 0 then 0
                       else if interp1 (awlngth ! idx) cwlngth cpd_ts - apd_ts ! idx \<le> 0.02 then 0
                       else apd_ts ! idx / (interp1 (awlngth ! idx) cwlngth cpd_ts - apd_ts ! idx))
                      * (c - a))
                    apd_ts (map (\<lambda>v. interp1 v cwlngth cpd_ts) awlngth))"
    using assms(1,2) i(2) by (simp add: opt_scatter_corr_def i(1) np Let_def)
  with i(2,3,4) show ?thesis by blast
qed

lemma map2_zero_ratio:
  assumes "length ys = length xs"
  shows "map2 (\<lambda>a c. a - 0 * (c - a)) xs ys = (xs :: real list)"
proof -
  have "map2 (\<lambda>a c. a - 0 * (c - a)) xs ys = map fst (zip xs ys)"
    by (rule map_cong) auto
  with assms show ?thesis by simp
qed

text \<open>
  Claim C7. For non-empty inputs whose two pairs have equal lengths, let \<open>idx\<close> be the
  first index at which the absorption wavelength is closest to the reference wavelength.
  When the absorption at \<open>idx\<close> is not positive, or the interpolated attenuation at
  \<open>idx\<close> minus that absorption does not exceed 0.02, the scattering ratio is zero and
  \<open>opt_scatter_corr\<close> returns the absorption input unchanged.
\<close>

theorem opt_scatter_corr_suppressed:
  assumes "length apd_ts = length awlngth" "length cpd_ts = length cwlngth"
    "awlngth \<noteq> []" "cwlngth \<noteq> []"
  shows "\<exists>idx. idx < length awlngth
           \<and> (\<forall>j<length awlngth. \<bar>awlngth ! idx - rwlngth\<bar> \<le> \<bar>awlngth ! j - rwlngth\<bar>)
           \<and> (\<forall>j<idx. \<bar>awlngth ! idx - rwlngth\<bar> < \<bar>awlngth ! j - rwlngth\<bar>)
           \<and> (apd_ts ! idx \<le> 0 \<or> interp1 (awlngth ! idx) cwlngth cpd_ts - apd_ts ! idx \<le> 0.02
                \<longrightarrow> opt_scatter_corr apd_ts awlngth cpd_ts cwlngth rwlngth = Inr apd_ts)"
proof -
  from opt_scatter_corr_eq [OF assms, of rwlngth]
  obtain idx where i: "idx < length awlngth"
    "\<forall>j<length awlngth. \<bar>awlngth ! idx - rwlngth\<bar> \<le> \<bar>awlngth ! j - rwlngth\<bar>"
    "\<forall>j<idx. \<bar>awlngth ! idx - rwlngth\<bar> < \<bar>awlngth ! j - rwlngth\<bar>"
    and r: "opt_scatter_corr apd_ts awlngth cpd_ts cwlngth rwlngth =
               Inr (map2 (\<lambda>a c. a -
                      (if apd_ts ! idx \<le> 0 then 0
                       else if interp1 (awlngth ! idx) cwlngth cpd_ts - apd_ts ! idx \<le> 0.02 then 0
                       else apd_ts ! idx / (interp1 (awlngth ! idx) cwlngth cpd_ts - apd_ts ! idx))
                      * (c - a))
                    apd_ts (map (\<lambda>v. interp1 v cwlngth cpd_ts) awlngth))"
    by blast
  have z: "map2 (\<lambda>a c. a - 0 * (c - a)) apd_ts (map (\<lambda>v. interp1 v cwlngth cpd_ts) awlngth) = apd_ts"
    by (rule map2_zero_ratio) (simp add: assms(1))
  have "opt_scatter_corr apd_ts awlngth cpd_ts cwlngth rwlngth = Inr apd_ts"
    if "apd_ts ! idx \<le> 0 \<or> interp1 (awlngth ! idx) cwlngth cpd_ts - apd_ts ! idx \<le> 0.02"
  proof -
    from that have "(if apd_ts ! idx \<le> 0 then 0
                       else if interp1 (awlngth ! idx) cwlngth cpd_ts - apd_ts ! idx \<le> 0.02 then 0
                       else apd_ts ! idx / (interp1 (awlngth ! idx) cwlngth cpd_ts - apd_ts ! idx)) = 0"
      by auto
    then show ?thesis unfolding r by (simp only: z)
  qed
  with i show ?thesis by blast
qed

theorem opt_scatter_corr_suppressed_witness:
  "opt_scatter_corr [0.01] [715] [0.015] [715] 715 = Inr [0.01]"
proof -
  have h: "length [0.01 :: real] = length [715 :: real]" "length [0.015 :: real] = length [715 :: real]"
    "[715 :: real] \<noteq> []" "[715 :: real] \<noteq> []"
    by simp_all
  from opt_scatter_corr_suppressed [OF h, of 715]
  obtain idx where i: "idx < length [715 :: real]"
    and c: "[0.01] ! idx \<le> (0 :: real) \<or> interp1 ([715] ! idx) [715] [0.015] - [0.01] ! idx \<le> 0.02
              \<longrightarrow> opt_scatter_corr [0.01] [715] [0.015] [715] 715 = Inr [0.01]"
    by blast
  from i have "idx = 0" by simp
  with c show ?thesis by (simp add: interp1_def)
qed

text \<open>
  Claim C8. For non-empty inputs whose two pairs have equal lengths: the reference index
  \<open>idx\<close> is the first index of an absorption wavelength closest to the reference
  wavelength (715 by default); the attenuation coefficients are interpolated onto the
  absorption wavelengths, linearly between neighbouring attenuation wavelengths; and when
  the absorption at \<open>idx\<close> is positive and the interpolated attenuation at \<open>idx\<close>
  exceeds it by more than 0.02, the output is, elementwise,
  \<open>absorption - ratio * (interpolated attenuation - absorption)\<close> with
  \<open>ratio = aref / (cref - aref)\<close>.
\<close>

theorem opt_scatter_corr_applied:
  assumes "length apd_ts = length awlngth" "length cpd_ts = length cwlngth"
    "awlngth \<noteq> []" "cwlngth \<noteq> []"
  shows "\<exists>idx cintrp. idx < length awlngth
           \<and> (\<forall>j<length awlngth. \<bar>awlngth ! idx - rwlngth\<bar> \<le> \<bar>awlngth ! j - rwlngth\<bar>)
           \<and> (\<forall>j<idx. \<bar>awlngth ! idx - rwlngth\<bar> < \<bar>awlngth ! j - rwlngth\<bar>)
           \<and> np_interp awlngth cwlngth cpd_ts = Inr cintrp
           \<and> length cintrp = length awlngth
           \<and> (sorted cwlngth \<longrightarrow>
                (\<forall>i<length awlngth. \<forall>k. Suc k < length cwlngth
                    \<and> cwlngth ! k \<le> awlngth ! i \<and> awlngth ! i < cwlngth ! Suc k \<longrightarrow>
                    cintrp ! i = (cpd_ts ! Suc k - cpd_ts ! k) / (cwlngth ! Suc k - cwlngth ! k)
                                   * (awlngth ! i - cwlngth ! k) + cpd_ts ! k))
           \<and> (0 < apd_ts ! idx \<and> 0.02 < cintrp ! idx - apd_ts ! idx \<longrightarrow>
                (\<exists>apd_ts_s. opt_scatter_corr apd_ts awlngth cpd_ts cwlngth rwlngth = Inr apd_ts_s
                   \<and> length apd_ts_s = length apd_ts
                   \<and> (\<forall>i<length apd_ts.
                        apd_ts_s ! i = apd_ts ! i
                          - apd_ts ! idx / (cintrp ! idx - apd_ts ! idx) * (cintrp ! i - apd_ts ! i))))
           \<and> opt_scatter_corr_default apd_ts awlngth cpd_ts cwlngth =
               opt_scatter_corr apd_ts awlngth cpd_ts cwlngth 715"
proof -
  define cintrp where "cintrp = map (\<lambda>v. interp1 v cwlngth cpd_ts) awlngth"
  from opt_scatter_corr_eq [OF assms, of rwlngth]
  obtain idx where i: "idx < length awlngth"
    "\<forall>j<length awlngth. \<bar>awlngth ! idx - rwlngth\<bar> \<le> \<bar>awlngth ! j - rwlngth\<bar>"
    "\<forall>j<idx. \<bar>awlngth ! idx - rwlngth\<bar> < \<bar>awlngth ! j - rwlngth\<bar>"
    and r: "opt_scatter_corr apd_ts awlngth cpd_ts cwlngth rwlngth =
               Inr (map2 (\<lambda>a c. a -
                      (if apd_ts ! idx \<le> 0 then 0
                       else if interp1 (awlngth ! idx) cwlngth cpd_ts - apd_ts ! idx \<le> 0.02 then 0
                       else apd_ts ! idx / (interp1 (awlngth ! idx) cwlngth cpd_ts - apd_ts ! idx))
                      * (c - a))
                    apd_ts cintrp)"
    unfolding cintrp_def by blast
  have np: "np_interp awlngth cwlngth cpd_ts = Inr cintrp"
    using assms(2,4) by (simp add: np_interp_def cintrp_def)
  have len: "length cintrp = length awlngth" by (simp add: cintrp_def)
  have ci: "cintrp ! idx = interp1 (awlngth ! idx) cwlngth cpd_ts"
    using i(1) by (simp add: cintrp_def)
  have lin: "cintrp ! i = (cpd_ts ! Suc k - cpd_ts ! k) / (cwlngth ! Suc k - cwlngth ! k)
                                   * (awlngth ! i - cwlngth ! k) + cpd_ts ! k"
    if "sorted cwlngth" "i < length awlngth" "Suc k < length cwlngth"
      "cwlngth ! k \<le> awlngth ! i" "awlngth ! i < cwlngth ! Suc k" for i k
    using that interp1_linear [OF that(1) assms(2) that(3,4,5)]
    by (simp add: cintrp_def)
  have app: "\<exists>apd_ts_s. opt_scatter_corr apd_ts awlngth cpd_ts cwlngth rwlngth = Inr apd_ts_s
                   \<and> length apd_ts_s = length apd_ts
                   \<and> (\<forall>i<length apd_ts.
                        apd_ts_s ! i = apd_ts ! i
                          - apd_ts ! idx / (cintrp ! idx - apd_ts ! idx) * (cintrp ! i - apd_ts ! i))"
    if c: "0 < apd_ts ! idx \<and> 0.02 < cintrp ! idx - apd_ts ! idx"
  proof -
    from c have ratio: "(if apd_ts ! idx \<le> 0 then 0
                       else if interp1 (awlngth ! idx) cwlngth cpd_ts - apd_ts ! idx \<le> 0.02 then 0
                       else apd_ts ! idx / (interp1 (awlngth ! idx) cwlngth cpd_ts - apd_ts ! idx))
                  = apd_ts ! idx / (cintrp ! idx - apd_ts ! idx)"
      by (simp add: ci)
    have r': "opt_scatter_corr apd_ts awlngth cpd_ts cwlngth rwlngth =
               Inr (map2 (\<lambda>a c. a - apd_ts ! idx / (cintrp ! idx - apd_ts ! idx) * (c - a))
                      apd_ts cintrp)"
      unfolding r ratio ..
    show ?thesis
      apply (rule exI [of _ "map2 (\<lambda>a c. a - apd_ts ! idx / (cintrp ! idx - apd_ts ! idx) * (c - a))
                      apd_ts cintrp"])
      using r' len assms(1) apply simp
      done
  qed
  have dflt: "opt_scatter_corr_default apd_ts awlngth cpd_ts cwlngth =
               opt_scatter_corr apd_ts awlngth cpd_ts cwlngth 715"
    by (simp add: opt_scatter_corr_default_def)
  show ?thesis
    apply (rule exI [of _ idx])
    apply (rule exI [of _ cintrp])
    apply (intro conjI impI allI)
    using i np len lin app dflt apply blast+
    done
qed

text \<open>
  Claim C10, as amended. In exact arithmetic, whenever the scattering correction is
  applied the corrected absorption at the reference index is zero.
\<close>

theorem opt_scatter_corr_ref_zero:
  assumes "length apd_ts = length awlngth" "length cpd_ts = length cwlngth"
    "awlngth \<noteq> []" "cwlngth \<noteq> []"
  shows "\<exists>idx. idx < length awlngth
           \<and> (\<forall>j<length awlngth. \<bar>awlngth ! idx - rwlngth\<bar> \<le> \<bar>awlngth ! j - rwlngth\<bar>)
           \<and> (\<forall>j<idx. \<bar>awlngth ! idx - rwlngth\<bar> < \<bar>awlngth ! j - rwlngth\<bar>)
           \<and> (0 < apd_ts ! idx \<and> 0.02 < interp1 (awlngth ! idx) cwlngth cpd_ts - apd_ts ! idx
                \<longrightarrow> (\<exists>apd_ts_s. opt_scatter_corr apd_ts awlngth cpd_ts cwlngth rwlngth = Inr apd_ts_s
                      \<and> apd_ts_s ! idx = 0))"
proof -
  from opt_scatter_corr_eq [OF assms, of rwlngth]
  obtain idx where i: "idx < length awlngth"
    "\<forall>j<length awlngth. \<bar>awlngth ! idx - rwlngth\<bar> \<le> \<bar>awlngth ! j - rwlngth\<bar>"
    "\<forall>j<idx. \<bar>awlngth ! idx - rwlngth\<bar> < \<bar>awlngth ! j - rwlngth\<bar>"
    and r: "opt_scatter_corr apd_ts awlngth cpd_ts cwlngth rwlngth =
               Inr (map2 (\<lambda>a c. a -
                      (if apd_ts ! idx \<le> 0 then 0
                       else if interp1 (awlngth ! idx) cwlngth cpd_ts - apd_ts ! idx \<le> 0.02 then 0
                       else apd_ts ! idx / (interp1 (awlngth ! idx) cwlngth cpd_ts - apd_ts ! idx))
                      * (c - a))
                    apd_ts (map (\<lambda>v. interp1 v cwlngth cpd_ts) awlngth))"
    by blast
  have "\<exists>apd_ts_s. opt_scatter_corr apd_ts awlngth cpd_ts cwlngth rwlngth = Inr apd_ts_s
                      \<and> apd_ts_s ! idx = 0"
    if c: "0 < apd_ts ! idx \<and> 0.02 < interp1 (awlngth ! idx) cwlngth cpd_ts - apd_ts ! idx"
  proof -
    from c have nz: "interp1 (awlngth ! idx) cwlngth cpd_ts - apd_ts ! idx \<noteq> 0" by simp
    have "map2 (\<lambda>a c. a -
                      (if apd_ts ! idx \<le> 0 then 0
                       else if interp1 (awlngth ! idx) cwlngth cpd_ts - apd_ts ! idx \<le> 0.02 then 0
                       else apd_ts ! idx / (interp1 (awlngth ! idx) cwlngth cpd_ts - apd_ts ! idx))
                      * (c - a))
                    apd_ts (map (\<lambda>v. interp1 v cwlngth cpd_ts) awlngth) ! idx = 0"
      using i(1) assms(1) c nz by simp
    with r show ?thesis by simp
  qed
  with i show ?thesis by blast
qed

lemma ref_index_example:
  assumes "idx < length [700, 715 :: real]"
    and "\<forall>j<length [700, 715 :: real]. \<bar>[700, 715] ! idx - 715\<bar> \<le> \<bar>[700, 715] ! j - (715 :: real)\<bar>"
  shows "idx = 1"
proof -
  have "(1 :: nat) < length [700, 715 :: real]" by simp
  with assms(2) have "\<bar>[700, 715] ! idx - 715\<bar> \<le> \<bar>[700, 715] ! 1 - (715 :: real)\<bar>"
    by blast
  then have z: "[700, 715] ! idx = (715 :: real)" by simp
  have "idx \<noteq> 0"
  proof
    assume "idx = 0"
    with z show False by simp
  qed
  moreover from assms(1) have "idx < 2" by simp
  ultimately show ?thesis by linarith
qed

theorem opt_scatter_corr_applied_witness:
  "\<exists>apd_ts_s. opt_scatter_corr [0.08, 0.05] [700, 715] [0.08, 0.12] [710, 720] 715 = Inr apd_ts_s
     \<and> length apd_ts_s = 2
     \<and> apd_ts_s ! 0 = 0.08 - 0.05 / (0.10 - 0.05) * (0.08 - 0.08)
     \<and> apd_ts_s ! 1 = 0.05 - 0.05 / (0.10 - 0.05) * (0.10 - 0.05)"
proof -
  have h: "length [0.08, 0.05 :: real] = length [700, 715 :: real]"
    "length [0.08, 0.12 :: real] = length [710, 720 :: real]"
    "[700, 715 :: real] \<noteq> []" "[710, 720 :: real] \<noteq> []"
    by simp_all
  from opt_scatter_corr_applied [OF h, of 715]
  obtain idx cintrp where i: "idx < length [700, 715 :: real]"
    "\<forall>j<length [700, 715 :: real]. \<bar>[700, 715] ! idx - 715\<bar> \<le> \<bar>[700, 715] ! j - (715 :: real)\<bar>"
    and np: "np_interp [700, 715] [710, 720] [0.08, 0.12] = Inr cintrp"
    and app: "0 < [0.08, 0.05 :: real] ! idx \<and> 0.02 < cintrp ! idx - [0.08, 0.05] ! idx \<longrightarrow>
                (\<exists>apd_ts_s. opt_scatter_corr [0.08, 0.05] [700, 715] [0.08, 0.12] [710, 720] 715 = Inr apd_ts_s
                   \<and> length apd_ts_s = length [0.08, 0.05 :: real]
                   \<and> (\<forall>i<length [0.08, 0.05 :: real].
                        apd_ts_s ! i = [0.08, 0.05] ! i
                          - [0.08, 0.05] ! idx / (cintrp ! idx - [0.08, 0.05] ! idx)
                            * (cintrp ! i - [0.08, 0.05] ! i)))"
    by blast
  have idx: "idx = 1" by (rule ref_index_example [OF i])
  from np have ci: "cintrp = [0.08, 0.10]"
    by (simp add: np_interp_def interp1_def)
  have c: "0 < [0.08, 0.05 :: real] ! idx \<and> 0.02 < cintrp ! idx - [0.08, 0.05] ! idx"
    unfolding idx ci by simp
  from app [rule_format, OF c] obtain apd_ts_s where
    r: "opt_scatter_corr [0.08, 0.05] [700, 715] [0.08, 0.12] [710, 720] 715 = Inr apd_ts_s"
    and l: "length apd_ts_s = length [0.08, 0.05 :: real]"
    and v: "\<forall>i<length [0.08, 0.05 :: real].
                        apd_ts_s ! i = [0.08, 0.05] ! i
                          - [0.08, 0.05] ! idx / (cintrp ! idx - [0.08, 0.05] ! idx)
                            * (cintrp ! i - [0.08, 0.05] ! i)"
    by blast
  have v0: "apd_ts_s ! 0 = 0.08 - 0.05 / (0.10 - 0.05) * (0.08 - 0.08)"
    using v [rule_format, of 0] unfolding idx ci by simp
  have v1: "apd_ts_s ! 1 = 0.05 - 0.05 / (0.10 - 0.05) * (0.10 - 0.05)"
    using v [rule_format, of 1] unfolding idx ci by simp
  from l have l2: "length apd_ts_s = 2" by simp
  show ?thesis
    apply (rule exI [of _ apd_ts_s])
    apply (intro conjI)
       apply (rule r)
      apply (rule l2)
     apply (rule v0)
    apply (rule v1)
    done
qed

theorem opt_scatter_corr_ref_zero_witness:
  "\<exists>apd_ts_s. opt_scatter_corr [0.08, 0.05] [700, 715] [0.08, 0.12] [710, 720] 715 = Inr apd_ts_s
     \<and> apd_ts_s ! 1 = 0"
proof -
  have h: "length [0.08, 0.05 :: real] = length [700, 715 :: real]"
    "length [0.08, 0.12 :: real] = length [710, 720 :: real]"
    "[700, 715 :: real] \<noteq> []" "[710, 720 :: real] \<noteq> []"
    by simp_all
  from opt_scatter_corr_ref_zero [OF h, of 715]
  obtain idx where i: "idx < length [700, 715 :: real]"
    "\<forall>j<length [700, 715 :: real]. \<bar>[700, 715] ! idx - 715\<bar> \<le> \<bar>[700, 715] ! j - (715 :: real)\<bar>"
    and app: "0 < [0.08, 0.05 :: real] ! idx
               \<and> 0.02 < interp1 ([700, 715] ! idx) [710, 720] [0.08, 0.12] - [0.08, 0.05] ! idx
              \<longrightarrow> (\<exists>apd_ts_s. opt_scatter_corr [0.08, 0.05] [700, 715] [0.08, 0.12] [710, 720] 715 = Inr apd_ts_s
                      \<and> apd_ts_s ! idx = 0)"
    by blast
  have idx: "idx = 1" by (rule ref_index_example [OF i])
  have c: "0 < [0.08, 0.05 :: real] ! idx
               \<and> 0.02 < interp1 ([700, 715] ! idx) [710, 720] [0.08, 0.12] - [0.08, 0.05] ! idx"
    unfolding idx by (simp add: interp1_def)
  from app [rule_format, OF c] show ?thesis
    unfolding idx .
qed

section \<open>Binary64 rounding at the reference index\<close>

lemma pow2_powr: "pow2 k = 2 powr (of_int k)"
proof (cases "0 \<le> k")
  case True
  then have "(2 :: real) powr (of_int k) = 2 powr (real (nat k))" by simp
  also have "\<dots> = 2 ^ nat k" by (rule powr_realpow) simp
  finally show ?thesis using True by (simp add: pow2_def)
next
  case False
  then have "(2 :: real) powr (of_int k) = 2 powr (- real (nat (- k)))" by simp
  also have "\<dots> = 1 / (2 powr (real (nat (- k))))" by (simp add: powr_minus divide_inverse)
  also have "(2 :: real) powr (real (nat (- k))) = 2 ^ nat (- k)" by (rule powr_realpow) simp
  finally show ?thesis using False by (simp add: pow2_def)
qed

lemma binade_eqI:
  assumes "pow2 k \<le> \<bar>x\<bar>" "\<bar>x\<bar> < pow2 (k + 1)"
  shows "binade x = k"
proof -
  have "0 < pow2 k" by (simp add: pow2_powr)
  with assms(1) have pos: "0 < \<bar>x\<bar>" by linarith
  have lo: "of_int k \<le> log 2 \<bar>x\<bar>"
    using assms(1) pos by (simp add: le_log_iff pow2_powr)
  have hi: "log 2 \<bar>x\<bar> < of_int k + 1"
    using assms(2) pos by (simp add: log_less_iff pow2_powr)
  from lo hi show ?thesis
    unfolding binade_def by (rule floor_unique)
qed

lemma rint_eqI:
  assumes "of_int n \<le> y" "y - of_int n < 1 / 2"
  shows "rint y = n"
proof -
  have "\<lfloor>y\<rfloor> = n" using assms by (intro floor_unique) linarith+
  with assms show ?thesis by (simp add: rint_def Let_def)
qed

lemma rint_eqI_up:
  assumes "y < of_int n" "of_int n - y < 1 / 2"
  shows "rint y = n"
proof -
  have f: "\<lfloor>y\<rfloor> = n - 1" using assms by (intro floor_unique) simp_all
  with assms show ?thesis by (simp add: rint_def Let_def)
qed

lemma round_f64_eqI:
  assumes "x \<noteq> 0" "pow2 k \<le> \<bar>x\<bar>" "\<bar>x\<bar> < pow2 (k + 1)"
    and "of_int n \<le> x / pow2 (k - 52)" "x / pow2 (k - 52) - of_int n < 1 / 2"
  shows "round_f64 x = of_int n * pow2 (k - 52)"
proof -
  have b: "binade x = k" by (rule binade_eqI [OF assms(2,3)])
  have r: "rint (x / pow2 (k - 52)) = n" by (rule rint_eqI [OF assms(4,5)])
  show ?thesis using assms(1) by (simp only: round_f64_def b r Let_def if_False)
qed

lemma round_f64_eqI_up:
  assumes "x \<noteq> 0" "pow2 k \<le> \<bar>x\<bar>" "\<bar>x\<bar> < pow2 (k + 1)"
    and "x / pow2 (k - 52) < of_int n" "of_int n - x / pow2 (k - 52) < 1 / 2"
  shows "round_f64 x = of_int n * pow2 (k - 52)"
proof -
  have b: "binade x = k" by (rule binade_eqI [OF assms(2,3)])
  have r: "rint (x / pow2 (k - 52)) = n" by (rule rint_eqI_up [OF assms(4,5)])
  show ?thesis using assms(1) by (simp only: round_f64_def b r Let_def if_False)
qed

lemma round_49: "round_f64 (50 - 1) = 49"
proof -
  have "round_f64 (50 - 1) = of_int (49 * 2 ^ 47) * pow2 (5 - 52)"
    by (rule round_f64_eqI) (simp_all add: pow2_def)
  then show ?thesis by (simp add: pow2_def)
qed

lemma round_1_49: "round_f64 (1 / 49) = 5882252574524729 / 2 ^ 58"
proof -
  have "round_f64 (1 / 49) = of_int 5882252574524729 * pow2 (- 6 - 52)"
    by (rule round_f64_eqI) (simp_all add: pow2_def)
  then show ?thesis by (simp add: pow2_def)
qed

lemma round_prod: "round_f64 (5882252574524729 / 2 ^ 58 * 49) = 9007199254740991 / 2 ^ 53"
proof -
  have "round_f64 (5882252574524729 / 2 ^ 58 * 49) = of_int 9007199254740991 * pow2 (- 1 - 52)"
    by (rule round_f64_eqI) (simp_all add: pow2_def)
  then show ?thesis by (simp add: pow2_def)
qed

lemma round_diff: "round_f64 (1 - 9007199254740991 / 2 ^ 53) = 1 / 2 ^ 53"
proof -
  have "round_f64 (1 - 9007199254740991 / 2 ^ 53) = of_int (2 ^ 52) * pow2 (- 53 - 52)"
    by (rule round_f64_eqI) (simp_all add: pow2_def)
  then show ?thesis by (simp add: pow2_def)
qed

lemma round_002: "round_f64 0.02 = 5764607523034235 / 2 ^ 58"
proof -
  have "round_f64 0.02 = of_int 5764607523034235 * pow2 (- 6 - 52)"
    by (rule round_f64_eqI_up) (simp_all add: pow2_def)
  then show ?thesis by (simp add: pow2_def)
qed

text \<open>
  The claim as stated in C10 fails in the arithmetic of the source. With the absorption
  1.0 and the interpolated attenuation 50.0 at the reference index the correction is
  applied, the ratio is the binary64 quotient 1/49, its product with 49 rounds to
  \<open>1 - 2^-53\<close>, and the corrected value is \<open>2^-53\<close>, not zero.
\<close>

theorem scat_ref_f64_counterexample:
  "(0 :: real) < 1 \<and> (0.02 :: real) < 50 - 1
   \<and> scat_ref_f64 1 50 = 1 / 2 ^ 53 \<and> scat_ref_f64 1 50 \<noteq> 0"
proof -
  have d: "f64_sub 50 1 = 49" by (simp only: f64_sub_def round_49)
  have c: "\<not> f64_sub 50 1 \<le> round_f64 0.02" by (simp only: d round_002) simp
  have q: "f64_div 1 49 = 5882252574524729 / 2 ^ 58" by (simp only: f64_div_def round_1_49)
  have m: "f64_mul (5882252574524729 / 2 ^ 58) 49 = 9007199254740991 / 2 ^ 53"
    by (simp only: f64_mul_def round_prod)
  have s: "f64_sub 1 (9007199254740991 / 2 ^ 53) = 1 / 2 ^ 53"
    by (simp only: f64_sub_def round_diff)
  have "scat_ref_f64 1 50 = f64_sub 1 (f64_mul (f64_div 1 (f64_sub 50 1)) (f64_sub 50 1))"
    using c by (simp add: scat_ref_f64_def Let_def)
  then have v: "scat_ref_f64 1 50 = 1 / 2 ^ 53" by (simp only: d q m s)
  then show ?thesis by simp
qed

section \<open>Properties of opt\_ocr507\_irradiance\<close>

lemma atleast_2d_elems [simp]: "elems (atleast_2d a) = elems a"
  by (simp add: atleast_2d_def split: list.splits)

lemma atleast_2d_prod [simp]: "prod_list (shape (atleast_2d a)) = prod_list (shape a)"
  by (simp add: atleast_2d_def split: list.splits)

lemma atleast_2d_id: "2 \<le> length (shape a) \<Longrightarrow> atleast_2d a = a"
  by (cases "shape a") (auto simp: atleast_2d_def split: list.splits)

lemma atleast_2d_upd_shape [simp]:
  "shape (atleast_2d (a\<lparr>elems := es\<rparr>)) = shape (atleast_2d a)"
  by (simp add: atleast_2d_def split: list.splits)

lemma atleast_2d_upd_elems [simp]:
  "elems (atleast_2d (a\<lparr>elems := es\<rparr>)) = es"
  by (simp add: atleast_2d_def split: list.splits)

lemma opt_ocr507_irradiance_eq:
  "opt_ocr507_irradiance counts offset scale immersion_factor =
     (if last (shape (atleast_2d counts)) \<noteq> 7
         \<or> \<not> (shape (atleast_2d counts) = shape (atleast_2d offset)
               \<and> shape (atleast_2d offset) = shape (atleast_2d scale)
               \<and> shape (atleast_2d scale) = shape (atleast_2d immersion_factor))
      then Inl (ValueError
           [''counts, offset, scale, and immersion arrays must have the same shape and have 7 columns''])
      else Inr \<lparr>shape = shape (atleast_2d counts),
                elems = map2 (\<lambda>x y. x * y)
                          (map2 (\<lambda>x y. x * y)
                             (map2 (\<lambda>x y. x - y) (elems counts) (elems offset))
                             (elems scale))
                          (elems immersion_factor)\<rparr>)"
  by (auto simp: opt_ocr507_irradiance_def Let_def)

text \<open>
  Claim C9, as amended. \<open>opt_ocr507_irradiance\<close> raises its \<open>ValueError\<close> if and only if,
  after \<^verbatim>\<open>np.atleast_2d\<close> has been applied to each argument, the last dimension of
  \<open>counts\<close> differs from 7 or the four shapes are not all equal; for arguments of two or
  more dimensions these are the shapes of the inputs themselves. Otherwise it returns
  an array of the (promoted) shape of \<open>counts\<close> with the elements
  \<open>(counts - offset) * scale * immersion_factor\<close>.
\<close>

theorem opt_ocr507_irradiance_spec:
  "((\<exists>e. opt_ocr507_irradiance counts offset scale immersion_factor = Inl e) \<longleftrightarrow>
      (last (shape (atleast_2d counts)) \<noteq> 7
       \<or> \<not> (shape (atleast_2d counts) = shape (atleast_2d offset)
             \<and> shape (atleast_2d offset) = shape (atleast_2d scale)
             \<and> shape (atleast_2d scale) = shape (atleast_2d immersion_factor))))
   \<and> (2 \<le> length (shape counts) \<and> 2 \<le> length (shape offset)
        \<and> 2 \<le> length (shape scale) \<and> 2 \<le> length (shape immersion_factor) \<longrightarrow>
        ((\<exists>e. opt_ocr507_irradiance counts offset scale immersion_factor = Inl e) \<longleftrightarrow>
           (last (shape counts) \<noteq> 7
            \<or> \<not> (shape counts = shape offset \<and> shape offset = shape scale
                  \<and> shape scale = shape immersion_factor))))
   \<and> (\<forall>Ed. opt_ocr507_irradiance counts offset scale immersion_factor = Inr Ed \<longrightarrow>
         shape Ed = shape (atleast_2d counts)
         \<and> (wf_ndarray counts \<and> wf_ndarray offset \<and> wf_ndarray scale
              \<and> wf_ndarray immersion_factor \<longrightarrow>
              wf_ndarray Ed \<and> length (elems Ed) = length (elems counts)
              \<and> (\<forall>k<length (elems counts).
                    elems Ed ! k = (elems counts ! k - elems offset ! k)
                                     * elems scale ! k * elems immersion_factor ! k)))"
proof (intro conjI impI allI)
  show "(\<exists>e. opt_ocr507_irradiance counts offset scale immersion_factor = Inl e) \<longleftrightarrow>
      (last (shape (atleast_2d counts)) \<noteq> 7
       \<or> \<not> (shape (atleast_2d counts) = shape (atleast_2d offset)
             \<and> shape (atleast_2d offset) = shape (atleast_2d scale)
             \<and> shape (atleast_2d scale) = shape (atleast_2d immersion_factor)))"
    by (auto simp: opt_ocr507_irradiance_eq)
next
  assume "2 \<le> length (shape counts) \<and> 2 \<le> length (shape offset)
        \<and> 2 \<le> length (shape scale) \<and> 2 \<le> length (shape immersion_factor)"
  then have "atleast_2d counts = counts" "atleast_2d offset = offset"
    "atleast_2d scale = scale" "atleast_2d immersion_factor = immersion_factor"
    by (simp_all add: atleast_2d_id)
  then show "(\<exists>e. opt_ocr507_irradiance counts offset scale immersion_factor = Inl e) \<longleftrightarrow>
           (last (shape counts) \<noteq> 7
            \<or> \<not> (shape counts = shape offset \<and> shape offset = shape scale
                  \<and> shape scale = shape immersion_factor))"
    by (auto simp: opt_ocr507_irradiance_eq)
next
  fix Ed
  assume r: "opt_ocr507_irradiance counts offset scale immersion_factor = Inr Ed"
  then show "shape Ed = shape (atleast_2d counts)"
    by (auto simp: opt_ocr507_irradiance_eq split: if_splits)
next
  fix Ed
  assume r: "opt_ocr507_irradiance counts offset scale immersion_factor = Inr Ed"
    and w: "wf_ndarray counts \<and> wf_ndarray offset \<and> wf_ndarray scale \<and> wf_ndarray immersion_factor"
  from r have sh: "shape (atleast_2d counts) = shape (atleast_2d offset)"
    "shape (atleast_2d offset) = shape (atleast_2d scale)"
    "shape (atleast_2d scale) = shape (atleast_2d immersion_factor)"
    and ed: "Ed = \<lparr>shape = shape (atleast_2d counts),
                elems = map2 (\<lambda>x y. x * y)
                          (map2 (\<lambda>x y. x * y)
                             (map2 (\<lambda>x y. x - y) (elems counts) (elems offset))
                             (elems scale))
                          (elems immersion_factor)\<rparr>"
    by (auto simp: opt_ocr507_irradiance_eq split: if_splits)
  have p: "prod_list (shape counts) = prod_list (shape offset)"
    "prod_list (shape offset) = prod_list (shape scale)"
    "prod_list (shape scale) = prod_list (shape immersion_factor)"
    using sh by (metis atleast_2d_prod)+
  with w have l: "length (elems offset) = length (elems counts)"
    "length (elems scale) = length (elems counts)"
    "length (elems immersion_factor) = length (elems counts)"
    by (simp_all add: wf_ndarray_def)
  show "wf_ndarray Ed" using w l by (simp add: ed wf_ndarray_def)
  show "length (elems Ed) = length (elems counts)" using l by (simp add: ed)
  fix k assume "k < length (elems counts)"
  then show "elems Ed ! k = (elems counts ! k - elems offset ! k)
                                     * elems scale ! k * elems immersion_factor ! k"
    using l by (simp add: ed)
qed

theorem opt_ocr507_irradiance_spec_witness:
  "(\<exists>e. opt_ocr507_irradiance
          \<lparr>shape = [1, 6], elems = [1, 1, 1, 1, 1, 1]\<rparr> \<lparr>shape = [1, 6], elems = [1, 1, 1, 1, 1, 1]\<rparr>
          \<lparr>shape = [1, 6], elems = [1, 1, 1, 1, 1, 1]\<rparr> \<lparr>shape = [1, 6], elems = [1, 1, 1, 1, 1, 1]\<rparr>
        = Inl e)
   \<and> (\<exists>e. opt_ocr507_irradiance
          \<lparr>shape = [1, 8], elems = [1, 1, 1, 1, 1, 1, 1, 1]\<rparr>
          \<lparr>shape = [1, 8], elems = [1, 1, 1, 1, 1, 1, 1, 1]\<rparr>
          \<lparr>shape = [1, 8], elems = [1, 1, 1, 1, 1, 1, 1, 1]\<rparr>
          \<lparr>shape = [1, 8], elems = [1, 1, 1, 1, 1, 1, 1, 1]\<rparr>
        = Inl e)
   \<and> (\<exists>Ed. opt_ocr507_irradiance
          \<lparr>shape = [1, 7], elems = [10, 10, 10, 10, 10, 10, 10]\<rparr>
          \<lparr>shape = [1, 7], elems = [1, 1, 1, 1, 1, 1, 1]\<rparr>
          \<lparr>shape = [1, 7], elems = [2, 2, 2, 2, 2, 2, 2]\<rparr>
          \<lparr>shape = [1, 7], elems = [3, 3, 3, 3, 3, 3, 3]\<rparr>
        = Inr Ed \<and> shape Ed = [1, 7] \<and> elems Ed ! 0 = (10 - 1) * 2 * 3)"
proof (intro conjI)
  show "\<exists>e. opt_ocr507_irradiance
          \<lparr>shape = [1, 6], elems = [1, 1, 1, 1, 1, 1]\<rparr> \<lparr>shape = [1, 6], elems = [1, 1, 1, 1, 1, 1]\<rparr>
          \<lparr>shape = [1, 6], elems = [1, 1, 1, 1, 1, 1]\<rparr> \<lparr>shape = [1, 6], elems = [1, 1, 1, 1, 1, 1]\<rparr>
        = Inl e"
    using opt_ocr507_irradiance_spec [of "\<lparr>shape = [1, 6], elems = [1, 1, 1, 1, 1, 1]\<rparr>"
        "\<lparr>shape = [1, 6], elems = [1, 1, 1, 1, 1, 1]\<rparr>" "\<lparr>shape = [1, 6], elems = [1, 1, 1, 1, 1, 1]\<rparr>"
        "\<lparr>shape = [1, 6], elems = [1, 1, 1, 1, 1, 1]\<rparr>", THEN conjunct1]
    by (simp add: atleast_2d_def)
  show "\<exists>e. opt_ocr507_irradiance
          \<lparr>shape = [1, 8], elems = [1, 1, 1, 1, 1, 1, 1, 1]\<rparr>
          \<lparr>shape = [1, 8], elems = [1, 1, 1, 1, 1, 1, 1, 1]\<rparr>
          \<lparr>shape = [1, 8], elems = [1, 1, 1, 1, 1, 1, 1, 1]\<rparr>
          \<lparr>shape = [1, 8], elems = [1, 1, 1, 1, 1, 1, 1, 1]\<rparr>
        = Inl e"
    using opt_ocr507_irradiance_spec [of "\<lparr>shape = [1, 8], elems = [1, 1, 1, 1, 1, 1, 1, 1]\<rparr>"
        "\<lparr>shape = [1, 8], elems = [1, 1, 1, 1, 1, 1, 1, 1]\<rparr>"
        "\<lparr>shape = [1, 8], elems = [1, 1, 1, 1, 1, 1, 1, 1]\<rparr>"
        "\<lparr>shape = [1, 8], elems = [1, 1, 1, 1, 1, 1, 1, 1]\<rparr>", THEN conjunct1]
    by (simp add: atleast_2d_def)
  let ?c = "\<lparr>shape = [1, 7], elems = [10, 10, 10, 10, 10, 10, 10 :: real]\<rparr>"
  let ?o = "\<lparr>shape = [1, 7], elems = [1, 1, 1, 1, 1, 1, 1 :: real]\<rparr>"
  let ?s = "\<lparr>shape = [1, 7], elems = [2, 2, 2, 2, 2, 2, 2 :: real]\<rparr>"
  let ?i = "\<lparr>shape = [1, 7], elems = [3, 3, 3, 3, 3, 3, 3 :: real]\<rparr>"
  note sp = opt_ocr507_irradiance_spec [of ?c ?o ?s ?i]
  from sp [THEN conjunct1] have "\<not> (\<exists>e. opt_ocr507_irradiance ?c ?o ?s ?i = Inl e)"
    by (simp add: atleast_2d_def)
  then obtain Ed where r: "opt_ocr507_irradiance ?c ?o ?s ?i = Inr Ed"
    by (cases "opt_ocr507_irradiance ?c ?o ?s ?i") auto
  from sp [THEN conjunct2, THEN conjunct2, rule_format, OF r]
  have "shape Ed = [1, 7] \<and> elems Ed ! 0 = (10 - 1) * 2 * 3"
    by (simp add: atleast_2d_def wf_ndarray_def)
  with r show "\<exists>Ed. opt_ocr507_irradiance ?c ?o ?s ?i = Inr Ed \<and> shape Ed = [1, 7]
                 \<and> elems Ed ! 0 = (10 - 1) * 2 * 3"
    by blast
qed

text \<open>
  The claim as stated in C9 fails: a one-dimensional \<open>counts\<close> of shape \<open>(7,)\<close> and
  three arguments of shape \<open>(1, 7)\<close> have different shapes, and the call succeeds.
\<close>

theorem opt_ocr507_irradiance_spec_counterexample:
  "shape \<lparr>shape = [7], elems = [10, 10, 10, 10, 10, 10, 10 :: real]\<rparr>
     \<noteq> shape \<lparr>shape = [1, 7], elems = [1, 1, 1, 1, 1, 1, 1 :: real]\<rparr>
   \<and> opt_ocr507_irradiance
        \<lparr>shape = [7], elems = [10, 10, 10, 10, 10, 10, 10]\<rparr>
        \<lparr>shape = [1, 7], elems = [1, 1, 1, 1, 1, 1, 1]\<rparr>
        \<lparr>shape = [1, 7], elems = [2, 2, 2, 2, 2, 2, 2]\<rparr>
        \<lparr>shape = [1, 7], elems = [3, 3, 3, 3, 3, 3, 3]\<rparr>
      = Inr \<lparr>shape = [1, 7], elems = [54, 54, 54, 54, 54, 54, 54]\<rparr>"
  by (simp add: opt_ocr507_irradiance_def atleast_2d_def)

end
